theory Spec2Isabelle
  imports Complex_Main
begin

section \<open>Python helpers\<close>

text \<open>
  A Python dictionary with string keys and string values is an association list; the
  conversation metadata and the raw FAQ and policy entries are of this shape.
\<close>

type_synonym pydict = "(string \<times> string) list"

definition nl :: string where
  "nl = [CHR 0x0A]"

text \<open>\<^verbatim>\<open>sep.join(xs)\<close>\<close>

fun join :: "string \<Rightarrow> string list \<Rightarrow> string" where
  "join sep [] = []"
| "join sep [x] = x"
| "join sep (x # y # ys) = x @ sep @ join sep (y # ys)"

text \<open>
  \<^verbatim>\<open>xs[start:]\<close> for a Python integer \<open>start\<close>: a negative start counts from the end
  and is clipped at the front, a start beyond the end gives the empty list.
\<close>

definition py_slice_from :: "'a list \<Rightarrow> int \<Rightarrow> 'a list" where
  "py_slice_from xs start =
     (if start < 0 then drop (nat (int (length xs) + start)) xs else drop (nat start) xs)"

text \<open>\<^verbatim>\<open>metadata or {}\<close>: \<open>None\<close> and the empty dictionary both give the empty dictionary.\<close>

definition or_empty :: "pydict option \<Rightarrow> pydict" where
  "or_empty md = (case md of None \<Rightarrow> [] | Some d \<Rightarrow> d)"

section \<open>Conversation memory (memory.py)\<close>

text \<open>
  \<^verbatim>\<open>collections.deque(maxlen=n)\<close>: \<open>append\<close> adds on the right and, when the length
  then exceeds \<open>maxlen\<close>, drops one element on the left.
\<close>

record 'a deque =
  maxlen :: nat
  items :: "'a list"

definition deque_new :: "nat \<Rightarrow> 'a deque" where
  "deque_new n = \<lparr>maxlen = n, items = []\<rparr>"

definition deque_append :: "'a deque \<Rightarrow> 'a \<Rightarrow> 'a deque" where
  "deque_append d x =
     (let xs = items d @ [x]
      in d\<lparr>items := (if maxlen d < length xs then tl xs else xs)\<rparr>)"

record message =
  msg_role :: string
  msg_content :: string
  msg_timestamp :: string
  msg_metadata :: pydict

record log_entry =
  log_session_id :: string
  log_role :: string
  log_content :: string
  log_timestamp :: string
  log_context_used :: nat
  log_processing_time :: "real option"
  log_metadata :: pydict

text \<open>
  The state of a \<^verbatim>\<open>ConversationMemory\<close> object. The capacity is a natural number: a
  negative \<^verbatim>\<open>max_messages\<close> makes \<^verbatim>\<open>deque\<close> raise and is outside the model.
\<close>

record memory =
  max_messages :: nat
  conversations :: "string \<rightharpoonup> message deque"
  analytics_log :: "log_entry list"

text \<open>\<^verbatim>\<open>ConversationMemory.__init__\<close>; the module's global instance is \<open>memory_init 10\<close>.\<close>

definition memory_init :: "nat \<Rightarrow> memory" where
  "memory_init n = \<lparr>max_messages = n, conversations = Map.empty, analytics_log = []\<rparr>"

definition conversation_memory :: memory where
  "conversation_memory = memory_init 10"

text \<open>
  \<^verbatim>\<open>log_message\<close>. The reading of \<^verbatim>\<open>datetime.now().isoformat()\<close> is the argument
  \<open>now\<close>.
\<close>

definition log_message ::
  "memory \<Rightarrow> string \<Rightarrow> string \<Rightarrow> string \<Rightarrow> nat \<Rightarrow> real option \<Rightarrow> pydict option
     \<Rightarrow> string \<Rightarrow> memory" where
  "log_message st sid r c context_used processing_time md now =
     st\<lparr>analytics_log := analytics_log st @
        [\<lparr>log_session_id = sid, log_role = r, log_content = c, log_timestamp = now,
          log_context_used = context_used, log_processing_time = processing_time,
          log_metadata = or_empty md\<rparr>]\<rparr>"

text \<open>
  \<^verbatim>\<open>add_message\<close> reads the clock twice: \<open>now1\<close> stamps the message, \<open>now2\<close> the
  analytics record written by the call of \<^verbatim>\<open>log_message\<close> at its end.
\<close>

definition add_message ::
  "memory \<Rightarrow> string \<Rightarrow> string \<Rightarrow> string \<Rightarrow> pydict option \<Rightarrow> string \<Rightarrow> string \<Rightarrow> memory" where
  "add_message st sid r c md now1 now2 =
     (let d = (case conversations st sid of None \<Rightarrow> deque_new (max_messages st) | Some d \<Rightarrow> d);
          m = \<lparr>msg_role = r, msg_content = c, msg_timestamp = now1, msg_metadata = or_empty md\<rparr>;
          st' = st\<lparr>conversations := (conversations st)(sid \<mapsto> deque_append d m)\<rparr>
      in log_message st' sid r c 0 None md now2)"

definition get_conversation_history :: "memory \<Rightarrow> string \<Rightarrow> message list" where
  "get_conversation_history st sid =
     (case conversations st sid of None \<Rightarrow> [] | Some d \<Rightarrow> items d)"

definition get_last_n_messages :: "memory \<Rightarrow> string \<Rightarrow> int \<Rightarrow> message list" where
  "get_last_n_messages st sid n =
     (let history = get_conversation_history st sid
      in if history \<noteq> [] then py_slice_from history (- n) else [])"

definition start_of_conversation :: string where
  "start_of_conversation = ''This is the start of the conversation.''"

definition format_message :: "message \<Rightarrow> string" where
  "format_message m =
     (if msg_role m = ''user'' then ''User'' else ''Assistant'') @ '': '' @ msg_content m"

definition format_history_for_prompt :: "memory \<Rightarrow> string \<Rightarrow> int \<Rightarrow> string" where
  "format_history_for_prompt st sid include_last_n =
     (let messages = get_last_n_messages st sid include_last_n
      in if messages = [] then start_of_conversation
         else join nl (''Previous conversation:'' # map format_message messages))"

definition clear_session :: "memory \<Rightarrow> string \<Rightarrow> memory" where
  "clear_session st sid =
     (case conversations st sid of
        None \<Rightarrow> st
      | Some d \<Rightarrow> st\<lparr>conversations := (conversations st)(sid := None)\<rparr>)"

record analytics_summary =
  analytics_total_messages :: nat
  analytics_user_messages :: nat
  analytics_assistant_messages :: nat

definition get_analytics_summary :: "memory \<Rightarrow> analytics_summary" where
  "get_analytics_summary st =
     \<lparr>analytics_total_messages = length (analytics_log st),
      analytics_user_messages = length (filter (\<lambda>m. log_role m = ''user'') (analytics_log st)),
      analytics_assistant_messages =
        length (filter (\<lambda>m. log_role m = ''assistant'') (analytics_log st))\<rparr>"

text \<open>
  One call of \<^verbatim>\<open>add_message\<close> with everything it reads, and a run of such calls on one
  memory object.
\<close>

record add_call =
  call_session :: string
  call_role :: string
  call_content :: string
  call_metadata :: "pydict option"
  call_now1 :: string
  call_now2 :: string

definition add_call_run :: "memory \<Rightarrow> add_call \<Rightarrow> memory" where
  "add_call_run st c =
     add_message st (call_session c) (call_role c) (call_content c) (call_metadata c)
       (call_now1 c) (call_now2 c)"

definition add_messages :: "memory \<Rightarrow> add_call list \<Rightarrow> memory" where
  "add_messages st cs = foldl add_call_run st cs"

definition call_message :: "add_call \<Rightarrow> message" where
  "call_message c =
     \<lparr>msg_role = call_role c, msg_content = call_content c, msg_timestamp = call_now1 c,
      msg_metadata = or_empty (call_metadata c)\<rparr>"

text \<open>The messages a run of calls sends to one session, oldest first.\<close>

definition sent_to :: "string \<Rightarrow> add_call list \<Rightarrow> message list" where
  "sent_to sid cs = map call_message (filter (\<lambda>c. call_session c = sid) cs)"

text \<open>The last \<open>n\<close> elements of a list, in their order.\<close>

definition most_recent :: "nat \<Rightarrow> 'a list \<Rightarrow> 'a list" where
  "most_recent n xs = drop (length xs - n) xs"

section \<open>More Python helpers\<close>

text \<open>
  A value stored in a document dictionary: a string, or a nested dictionary (the
  \<^verbatim>\<open>metadata\<close> entry). JSON scalars are modelled by their text.
\<close>

datatype pyval = PStr string | PDict pydict

type_synonym document = "(string \<times> pyval) list"

text \<open>\<^verbatim>\<open>d.get(k, default)\<close>\<close>

definition dict_get :: "pydict \<Rightarrow> string \<Rightarrow> string \<Rightarrow> string" where
  "dict_get d k dflt = (case map_of d k of None \<Rightarrow> dflt | Some v \<Rightarrow> v)"

text \<open>The exceptions the modelled code can raise, and \<^verbatim>\<open>str(e)\<close>.\<close>

datatype exn = KeyError string | AttributeError string | IndexError string | TypeError string

definition exn_str :: "exn \<Rightarrow> string" where
  "exn_str e = (case e of KeyError k \<Rightarrow> [CHR 0x27] @ k @ [CHR 0x27] | AttributeError m \<Rightarrow> m
     | IndexError m \<Rightarrow> m | TypeError m \<Rightarrow> m)"

text \<open>\<^verbatim>\<open>os.path.join(a, b)\<close> for a relative \<open>b\<close>.\<close>

definition path_join :: "string \<Rightarrow> string \<Rightarrow> string" where
  "path_join a b = (if a = [] then b else if last a = CHR ''/'' then a @ b else a @ ''/'' @ b)"

text \<open>\<^verbatim>\<open>str.upper\<close> and \<^verbatim>\<open>str.strip\<close> on ASCII text, and \<^verbatim>\<open>str(n)\<close> for \<open>n \<ge> 0\<close>.\<close>

definition upper_char :: "char \<Rightarrow> char" where
  "upper_char c =
     (let n = (of_char c :: nat) in if 97 \<le> n \<and> n \<le> 122 then char_of (n - 32) else c)"

definition upper :: "string \<Rightarrow> string" where
  "upper s = map upper_char s"

definition is_space :: "char \<Rightarrow> bool" where
  "is_space c = (let n = (of_char c :: nat) in n = 32 \<or> (9 \<le> n \<and> n \<le> 13) \<or> (28 \<le> n \<and> n \<le> 31))"

definition strip :: "string \<Rightarrow> string" where
  "strip s = rev (dropWhile is_space (rev (dropWhile is_space s)))"

fun str_nat :: "nat \<Rightarrow> string" where
  "str_nat n =
     (if n < 10 then [char_of (48 + n)] else str_nat (n div 10) @ [char_of (48 + n mod 10)])"

declare str_nat.simps [simp del]

text \<open>
  The library routines the code calls, taken as parameters: \<^verbatim>\<open>numpy.argsort\<close> on the
  score array, the cosine similarity of the query vector and one stored vector (one entry
  of \<^verbatim>\<open>sklearn\<close>'s \<^verbatim>\<open>cosine_similarity(...)[0]\<close>; the scores are finite floats, read as
  reals), the float format \<^verbatim>\<open>{score:.2%}\<close>, \<^verbatim>\<open>str\<close> of a dictionary and \<^verbatim>\<open>round(x, 3)\<close>.
\<close>

record lib =
  argsort :: "real list \<Rightarrow> nat list"
  cosine_similarity :: "real list \<Rightarrow> real list \<Rightarrow> real"
  format_percent :: "real \<Rightarrow> string"
  dict_str :: "pydict \<Rightarrow> string"
  round3 :: "real \<Rightarrow> real"

text \<open>
  What \<^verbatim>\<open>numpy.argsort\<close> promises of its result \<open>is\<close> on the array \<open>xs\<close>: every position
  once, the values in ascending order. The order of equal values is left to the sort.
\<close>

definition is_argsort :: "real list \<Rightarrow> nat list \<Rightarrow> bool" where
  "is_argsort xs js = (distinct js \<and> set js = {0..<length xs} \<and> sorted (map ((!) xs) js))"

text \<open>
  Two sorts of the positions that meet \<open>is_argsort\<close>, for the examples: insertion sort,
  which lists equal values by ascending position, and insertion sort of the positions taken
  from the last, which lists them by descending position. The code calls
  \<^verbatim>\<open>numpy.argsort\<close> with its default kind, which is not stable: either order of equal
  values is a result it may give.
\<close>

definition insertion_argsort :: "real list \<Rightarrow> nat list" where
  "insertion_argsort xs = sort_key ((!) xs) [0..<length xs]"

definition backward_argsort :: "real list \<Rightarrow> nat list" where
  "backward_argsort xs = sort_key ((!) xs) (rev [0..<length xs])"

section \<open>Knowledge base (database.py, knowledge_base.py)\<close>

text \<open>
  What \<^verbatim>\<open>json.load\<close> returns: a list, whose elements are objects (dictionaries, their
  values held as text) or other values; an object; a string; or a number, a truth value or
  \<^verbatim>\<open>null\<close>. Values that are not looked into are held as their text.
\<close>

datatype json_item = Object pydict | Not_object string

datatype json_value = JList "json_item list" | JObject pydict | JString string | JScalar string

text \<open>
  A file of the data directory: JSON text with its value, or a file that cannot be opened
  or does not parse.
\<close>

datatype json_file = Json_parsed json_value | Json_malformed

text \<open>
  The object keeps in \<^verbatim>\<open>faqs\<close> and \<^verbatim>\<open>policies\<close> whatever \<^verbatim>\<open>json.load\<close> returned.
\<close>

record knowledge_base =
  data_dir :: string
  faqs :: json_value
  policies :: json_value
  all_documents :: "document list"

definition kb_init :: "string \<Rightarrow> knowledge_base" where
  "kb_init dir = \<lparr>data_dir = dir, faqs = JList [], policies = JList [], all_documents = []\<rparr>"

text \<open>
  The entries a loop \<^verbatim>\<open>for faq in self.faqs\<close> with \<^verbatim>\<open>faq.get(...)\<close> in its body goes
  through. An element that is no object has no \<^verbatim>\<open>get\<close>; an object or a string in place of
  the list is iterated by its keys or characters, which have no \<^verbatim>\<open>get\<close> either, and gives
  no entry when it is empty; a number, a truth value or \<^verbatim>\<open>null\<close> is not iterable. The text
  of these exceptions is only printed.
\<close>

fun objects_of :: "json_item list \<Rightarrow> exn + pydict list" where
  "objects_of [] = Inr []"
| "objects_of (Object d # rest) =
     (case objects_of rest of Inl e \<Rightarrow> Inl e | Inr ds \<Rightarrow> Inr (d # ds))"
| "objects_of (Not_object v # rest) = Inl (AttributeError ''object has no attribute get'')"

definition entries_of :: "json_value \<Rightarrow> exn + pydict list" where
  "entries_of v =
     (case v of
        JList xs \<Rightarrow> objects_of xs
      | JObject d \<Rightarrow> if d = [] then Inr [] else Inl (AttributeError ''object has no attribute get'')
      | JString t \<Rightarrow> if t = [] then Inr [] else Inl (AttributeError ''object has no attribute get'')
      | JScalar t \<Rightarrow> Inl (TypeError ''object is not iterable''))"

text \<open>The documents of \<^verbatim>\<open>_prepare_documents\<close> in database.py, with its metadata.\<close>

definition faq_document :: "pydict \<Rightarrow> document" where
  "faq_document faq =
     [(''id'', PStr (''faq_'' @ dict_get faq ''id'' ''NA'')),
      (''type'', PStr ''faq''),
      (''category'', PStr (dict_get faq ''category'' ''General'')),
      (''content'', PStr (''Question: '' @ dict_get faq ''question'' [] @ nl @
                        ''Answer: '' @ dict_get faq ''answer'' [])),
      (''metadata'', PDict [(''question'', dict_get faq ''question'' []),
                           (''answer'', dict_get faq ''answer'' []),
                           (''category'', dict_get faq ''category'' [])])]"

definition policy_document :: "pydict \<Rightarrow> document" where
  "policy_document policy =
     [(''id'', PStr (''policy_'' @ dict_get policy ''id'' ''NA'')),
      (''type'', PStr ''policy''),
      (''category'', PStr (dict_get policy ''category'' ''General'')),
      (''content'', PStr (''Title: '' @ dict_get policy ''title'' [] @ nl @
                        ''Category: '' @ dict_get policy ''category'' [] @ nl @
                        ''Content: '' @ dict_get policy ''content'' [])),
      (''metadata'', PDict [(''title'', dict_get policy ''title'' []),
                           (''category'', dict_get policy ''category'' []),
                           (''content'', dict_get policy ''content'' [])])]"

definition prepare_documents :: "knowledge_base \<Rightarrow> exn + document list" where
  "prepare_documents st =
     (case entries_of (faqs st) of
        Inl e \<Rightarrow> Inl e
      | Inr fq \<Rightarrow>
          (case entries_of (policies st) of
             Inl e \<Rightarrow> Inl e
           | Inr ps \<Rightarrow> Inr (map faq_document fq @ map policy_document ps)))"

text \<open>The same in knowledge_base.py, where the metadata is the source entry itself.\<close>

definition kb_faq_document :: "pydict \<Rightarrow> document" where
  "kb_faq_document faq =
     [(''id'', PStr (''faq_'' @ dict_get faq ''id'' ''NA'')),
      (''type'', PStr ''faq''),
      (''category'', PStr (dict_get faq ''category'' ''General'')),
      (''content'', PStr (''Question: '' @ dict_get faq ''question'' [] @ nl @
                        ''Answer: '' @ dict_get faq ''answer'' [])),
      (''metadata'', PDict faq)]"

definition kb_policy_document :: "pydict \<Rightarrow> document" where
  "kb_policy_document policy =
     [(''id'', PStr (''policy_'' @ dict_get policy ''id'' ''NA'')),
      (''type'', PStr ''policy''),
      (''category'', PStr (dict_get policy ''category'' ''General'')),
      (''content'', PStr (''Title: '' @ dict_get policy ''title'' [] @ nl @
                        ''Category: '' @ dict_get policy ''category'' [] @ nl @
                        ''Content: '' @ dict_get policy ''content'' [])),
      (''metadata'', PDict policy)]"

definition kb_prepare_documents :: "knowledge_base \<Rightarrow> exn + document list" where
  "kb_prepare_documents st =
     (case entries_of (faqs st) of
        Inl e \<Rightarrow> Inl e
      | Inr fq \<Rightarrow>
          (case entries_of (policies st) of
             Inl e \<Rightarrow> Inl e
           | Inr ps \<Rightarrow> Inr (map kb_faq_document fq @ map kb_policy_document ps)))"

text \<open>
  \<^verbatim>\<open>load_data\<close>, the same text in both files but for the \<^verbatim>\<open>_prepare_documents\<close> it calls.
  The files are read from \<open>fs\<close>. A missing file raises \<^verbatim>\<open>FileNotFoundError\<close>, a file that
  does not parse makes \<^verbatim>\<open>json.load\<close> raise, and \<^verbatim>\<open>_prepare_documents\<close> raises on values that
  are not lists of objects; the \<^verbatim>\<open>except\<close> clause turns each into the result \<open>False\<close>, with
  the object as the assignments made so far have left it.
\<close>

definition load_data_with ::
  "(knowledge_base \<Rightarrow> exn + document list) \<Rightarrow> (string \<rightharpoonup> json_file) \<Rightarrow> knowledge_base
     \<Rightarrow> bool \<times> knowledge_base" where
  "load_data_with prepare fs st =
     (case fs (path_join (data_dir st) ''faqs.json'') of
        None \<Rightarrow> (False, st)
      | Some Json_malformed \<Rightarrow> (False, st)
      | Some (Json_parsed fv) \<Rightarrow>
          (let st1 = st\<lparr>faqs := fv\<rparr>
           in case fs (path_join (data_dir st1) ''policies.json'') of
                None \<Rightarrow> (False, st1)
              | Some Json_malformed \<Rightarrow> (False, st1)
              | Some (Json_parsed pv) \<Rightarrow>
                  (let st2 = st1\<lparr>policies := pv\<rparr>
                   in case prepare st2 of
                        Inl e \<Rightarrow> (False, st2)
                      | Inr docs \<Rightarrow> (True, st2\<lparr>all_documents := docs\<rparr>))))"

definition load_data :: "(string \<rightharpoonup> json_file) \<Rightarrow> knowledge_base \<Rightarrow> bool \<times> knowledge_base" where
  "load_data = load_data_with prepare_documents"

definition kb_load_data :: "(string \<rightharpoonup> json_file) \<Rightarrow> knowledge_base \<Rightarrow> bool \<times> knowledge_base" where
  "kb_load_data = load_data_with kb_prepare_documents"

section \<open>Embedding index (rag_engine.py)\<close>

record retrieval =
  r_document :: document
  r_score :: real
  r_rank :: nat

text \<open>
  The state of a \<^verbatim>\<open>RAGEngine\<close>: \<open>model\<close> is the encoder once it is loaded, \<open>embeddings\<close>
  the array of stored vectors once it is built or loaded.
\<close>

record rag_engine =
  model_name :: string
  model :: "(string \<Rightarrow> real list) option"
  embeddings :: "real list list option"
  documents :: "document list"
  vector_store_path :: string

text \<open>\<^verbatim>\<open>RAGEngine.__init__\<close>; the knowledge base the engine owns is modelled apart.\<close>

definition rag_init :: "string \<Rightarrow> rag_engine" where
  "rag_init name =
     \<lparr>model_name = name, model = None, embeddings = None, documents = [],
      vector_store_path = ''./models/vector_store''\<rparr>"

text \<open>
  The pickled dictionary of \<^verbatim>\<open>_save_vector_store\<close>, and a file of the store directory:
  a snapshot, held as the value \<^verbatim>\<open>pickle.load\<close> gives back, or a file that cannot be read as
  one (\<^verbatim>\<open>_load_vector_store\<close> catches the exception and returns \<open>False\<close>).
\<close>

record snapshot =
  snap_embeddings :: "real list list option"
  snap_documents :: "document list"
  snap_model_name :: string

datatype pickle_file = Pickled snapshot | Unreadable

definition save_vector_store :: "rag_engine \<Rightarrow> (string \<rightharpoonup> pickle_file) \<Rightarrow> (string \<rightharpoonup> pickle_file)" where
  "save_vector_store st fs =
     fs(path_join (vector_store_path st) ''vectors.pkl'' \<mapsto>
        Pickled \<lparr>snap_embeddings = embeddings st, snap_documents = documents st,
                 snap_model_name = model_name st\<rparr>)"

definition load_vector_store :: "rag_engine \<Rightarrow> (string \<rightharpoonup> pickle_file) \<Rightarrow> bool \<times> rag_engine" where
  "load_vector_store st fs =
     (case fs (path_join (vector_store_path st) ''vectors.pkl'') of
        None \<Rightarrow> (False, st)
      | Some Unreadable \<Rightarrow> (False, st)
      | Some (Pickled data) \<Rightarrow>
          if snap_model_name data \<noteq> model_name st then (False, st)
          else (True, st\<lparr>embeddings := snap_embeddings data, documents := snap_documents data\<rparr>))"

text \<open>
  The loop of \<^verbatim>\<open>retrieve_context\<close> over \<^verbatim>\<open>top_indices\<close>; an index outside
  \<^verbatim>\<open>self.documents\<close> or the score array raises \<^verbatim>\<open>IndexError\<close>.
\<close>

fun collect_results ::
  "document list \<Rightarrow> real list \<Rightarrow> nat list \<Rightarrow> retrieval list \<Rightarrow> exn + retrieval list" where
  "collect_results docs sims [] results = Inr results"
| "collect_results docs sims (idx # rest) results =
     (if idx < length docs \<and> idx < length sims
      then collect_results docs sims rest
             (results @ [\<lparr>r_document = docs ! idx, r_score = sims ! idx,
                          r_rank = length results + 1\<rparr>])
      else Inl (IndexError ''list index out of range''))"

text \<open>The scores of the stored vectors against the encoded query.\<close>

definition similarities_of :: "lib \<Rightarrow> (string \<Rightarrow> real list) \<Rightarrow> string \<Rightarrow> real list list \<Rightarrow> real list" where
  "similarities_of L encode query es = map (cosine_similarity L (encode query)) es"

text \<open>\<^verbatim>\<open>np.argsort(similarities)[-top_k:][::-1]\<close>\<close>

definition top_indices_of :: "lib \<Rightarrow> real list \<Rightarrow> int \<Rightarrow> nat list" where
  "top_indices_of L similarities top_k = rev (py_slice_from (argsort L similarities) (- top_k))"

text \<open>
  \<^verbatim>\<open>retrieve_context\<close>. Every exception raised inside (no model loaded, an index out of
  range) is caught and gives the empty list.
\<close>

definition retrieve_context :: "lib \<Rightarrow> rag_engine \<Rightarrow> string \<Rightarrow> int \<Rightarrow> retrieval list" where
  "retrieve_context L st query top_k =
     (case embeddings st of
        None \<Rightarrow> []
      | Some es \<Rightarrow>
          if length es = 0 then []
          else (case model st of
                  None \<Rightarrow> []
                | Some encode \<Rightarrow>
                    (let similarities = similarities_of L encode query es;
                         top_indices = top_indices_of L similarities top_k
                     in case collect_results (documents st) similarities top_indices [] of
                          Inl e \<Rightarrow> []
                        | Inr results \<Rightarrow> results)))"

text \<open>\<^verbatim>\<open>f"{v}"\<close> of a dictionary value.\<close>

definition py_str :: "lib \<Rightarrow> pyval \<Rightarrow> string" where
  "py_str L v = (case v of PStr s \<Rightarrow> s | PDict d \<Rightarrow> dict_str L d)"

text \<open>
  The five lines \<^verbatim>\<open>format_context\<close> appends for one retrieved item. A document without
  the key raises \<^verbatim>\<open>KeyError\<close>, a \<^verbatim>\<open>type\<close> that is no string has no \<^verbatim>\<open>upper\<close>.
\<close>

definition format_source :: "lib \<Rightarrow> nat \<Rightarrow> retrieval \<Rightarrow> exn + string list" where
  "format_source L i item =
     (let doc = r_document item; score = r_score item
      in case map_of doc ''type'' of
           None \<Rightarrow> Inl (KeyError ''type'')
         | Some (PDict d) \<Rightarrow> Inl (AttributeError ([CHR 0x27] @ ''dict'' @ [CHR 0x27] @ '' object has no attribute '' @
                                  [CHR 0x27] @ ''upper'' @ [CHR 0x27]))
         | Some (PStr ty) \<Rightarrow>
             (case map_of doc ''category'' of
                None \<Rightarrow> Inl (KeyError ''category'')
              | Some cat \<Rightarrow>
                  (case map_of doc ''content'' of
                     None \<Rightarrow> Inl (KeyError ''content'')
                   | Some con \<Rightarrow>
                       Inr [nl @ ''[Source '' @ str_nat i @ ''] (Relevance: '' @
                              format_percent L score @ '')'',
                            ''Type: '' @ upper ty,
                            ''Category: '' @ py_str L cat,
                            ''Content: '' @ py_str L con,
                            replicate 80 CHR ''-''])))"

fun format_sources :: "lib \<Rightarrow> nat \<Rightarrow> retrieval list \<Rightarrow> exn + string list" where
  "format_sources L i [] = Inr []"
| "format_sources L i (item # rest) =
     (case format_source L i item of
        Inl e \<Rightarrow> Inl e
      | Inr ls \<Rightarrow>
          (case format_sources L (Suc i) rest of Inl e \<Rightarrow> Inl e | Inr others \<Rightarrow> Inr (ls @ others)))"

definition format_context :: "lib \<Rightarrow> retrieval list \<Rightarrow> exn + string" where
  "format_context L retrieved_docs =
     (if retrieved_docs = [] then Inr ''No relevant information found.''
      else case format_sources L 1 retrieved_docs of
             Inl e \<Rightarrow> Inl e
           | Inr ls \<Rightarrow>
               Inr (join nl (([CHR 0xF0, CHR 0x9F, CHR 0x93, CHR 0x9A] @
                               '' Relevant Information:'' @ nl) # ls)))"

definition get_relevant_context ::
  "lib \<Rightarrow> rag_engine \<Rightarrow> string \<Rightarrow> int \<Rightarrow> exn + string \<times> retrieval list" where
  "get_relevant_context L st query top_k =
     (let retrieved = retrieve_context L st query top_k
      in case format_context L retrieved of
           Inl e \<Rightarrow> Inl e
         | Inr formatted \<Rightarrow> Inr (formatted, retrieved))"

section \<open>Prompt builder and generation client (llm_engine.py)\<close>

record llm_engine =
  provider :: string
  api_key :: "string option"
  llm_model :: "string option"
  api_url :: "string option"

definition business_prompt :: string where
  "business_prompt =
     ''You are a business professional assistant. Provide detailed, structured, precise answers '' @
     ''for business-related queries. Be professional, concise, and actionable.''"

definition education_prompt :: string where
  "education_prompt =
     ''You are an educational tutor assistant. Explain concepts clearly, give examples, and '' @
     ''help the user understand step by step.''"

definition default_prompt :: string where
  "default_prompt =
     ''You are GROK '' @ [CHR 0xE2, CHR 0x80, CHR 0x94] @
     '' an intelligent, witty, professional assistant with deep knowledge in '' @
     ''AI, education, coding, reasoning, psychology, technology, and research. '' @
     ''Always give detailed, structured, clear, and smart answers. '' @
     ''Never behave like a simple customer-support bot.''"

text \<open>
  \<^verbatim>\<open>build_prompt\<close>. The history is \<^verbatim>\<open>None\<close> by default; \<^verbatim>\<open>if conversation_history\<close> and
  \<^verbatim>\<open>if context\<close> are false on \<^verbatim>\<open>None\<close> and on the empty string.
\<close>

definition build_prompt :: "string \<Rightarrow> string \<Rightarrow> string option \<Rightarrow> string \<Rightarrow> string \<times> string" where
  "build_prompt user_query context conversation_history mode =
     (let system_prompt =
            (if mode = ''business'' then business_prompt
             else if mode = ''education'' then education_prompt
             else default_prompt);
          user_prompt0 = [];
          user_prompt1 =
            (case conversation_history of
               None \<Rightarrow> user_prompt0
             | Some h \<Rightarrow>
                 if h \<noteq> [] then user_prompt0 @ ''Conversation History:'' @ nl @ h @ nl
                 else user_prompt0);
          user_prompt2 =
            (if context \<noteq> [] then user_prompt1 @ ''Context:'' @ nl @ context @ nl
             else user_prompt1);
          user_prompt3 = user_prompt2 @ ''User Question:'' @ nl @ user_query @ nl
      in (system_prompt, user_prompt3))"

text \<open>
  The request \<^verbatim>\<open>ask_llm\<close> posts and what can come of it: a timeout, another exception
  (with its text), or a response with its status code, its text and, for the body, the
  completion \<^verbatim>\<open>data["choices"][0]["message"]["content"]\<close> or the text of the exception
  that reading it raises.
\<close>

record llm_request =
  req_url :: "string option"
  req_key :: string
  req_model :: "string option"
  req_system :: string
  req_user :: string
  req_temperature :: real
  req_max_tokens :: nat

datatype http_outcome =
  Timeout
| Raised string
| Response nat string "string + string"

record llm_result =
  llm_success :: bool
  llm_response :: string
  llm_error :: "string option"
  llm_used_model :: "string option"
  llm_used_provider :: "string option"

definition llm_failure :: "string \<Rightarrow> llm_result" where
  "llm_failure msg =
     \<lparr>llm_success = False, llm_response = [], llm_error = Some msg, llm_used_model = None,
      llm_used_provider = None\<rparr>"

definition ask_llm ::
  "(llm_request \<Rightarrow> http_outcome) \<Rightarrow> llm_engine \<Rightarrow> string \<times> string \<Rightarrow> real \<Rightarrow> nat \<Rightarrow> llm_result" where
  "ask_llm post eng prompt_tuple temperature max_tokens =
     (let system_prompt = fst prompt_tuple; user_prompt = snd prompt_tuple
      in case api_key eng of
           None \<Rightarrow> llm_failure (upper (provider eng) @ ''_API_KEY not configured'')
         | Some key \<Rightarrow>
             if key = [] then llm_failure (upper (provider eng) @ ''_API_KEY not configured'')
             else (case post \<lparr>req_url = api_url eng, req_key = key, req_model = llm_model eng,
                               req_system = system_prompt, req_user = user_prompt,
                               req_temperature = temperature, req_max_tokens = max_tokens\<rparr> of
                     Timeout \<Rightarrow> llm_failure ''Request timed out. Please try again.''
                   | Raised msg \<Rightarrow> llm_failure (''LLM Error: '' @ msg)
                   | Response status_code body_text body \<Rightarrow>
                       if status_code = 200
                       then (case body of
                               Inl msg \<Rightarrow> llm_failure (''LLM Error: '' @ msg)
                             | Inr content \<Rightarrow>
                                 \<lparr>llm_success = True, llm_response = strip content,
                                  llm_error = None, llm_used_model = llm_model eng,
                                  llm_used_provider = Some (provider eng)\<rparr>)
                       else llm_failure (''API Error '' @ str_nat status_code @ '': '' @ body_text)))"

definition generate_response ::
  "(llm_request \<Rightarrow> http_outcome) \<Rightarrow> llm_engine \<Rightarrow> string \<Rightarrow> string \<Rightarrow> string option \<Rightarrow> real
     \<Rightarrow> string \<Rightarrow> llm_result" where
  "generate_response post eng user_query context conversation_history temperature mode =
     (let prompt_tuple = build_prompt user_query context conversation_history mode
      in ask_llm post eng prompt_tuple temperature 500)"

definition get_fallback_response :: "string \<Rightarrow> string" where
  "get_fallback_response user_query =
     ''I apologize, but I'' @ [CHR 0x27] @
     ''m having trouble processing your request right now.'' @ nl @
     nl @
     ''However, I can help you with:'' @ nl @
     ''* Account management questions'' @ nl @
     ''* Billing and payment inquiries'' @ nl @
     ''* Technical support issues'' @ nl @
     ''* Subscription and plan information'' @ nl @
     ''* Privacy and security questions'' @ nl @
     nl @
     ''Your question was: '' @ [CHR 0x22] @ user_query @ [CHR 0x22] @ ''.'' @ nl @
     ''Please try rephrasing your question or contact support.''"

text \<open>
  The payload as the specification words it: history, context and query in this order,
  each section a label line and its text, and each left out when its text is empty.
\<close>

definition labelled_block :: "string \<Rightarrow> string \<Rightarrow> string" where
  "labelled_block label body = label @ nl @ body @ nl"

definition payload_sections :: "string \<Rightarrow> string \<Rightarrow> string option \<Rightarrow> (string \<times> string) list" where
  "payload_sections user_query context conversation_history =
     (case conversation_history of
        None \<Rightarrow> []
      | Some h \<Rightarrow> if h = [] then [] else [(''Conversation History:'', h)]) @
     (if context = [] then [] else [(''Context:'', context)]) @
     (if user_query = [] then [] else [(''User Question:'', user_query)])"

section \<open>Chat orchestrator (app.py)\<close>

record chat_request =
  req_message :: string
  req_session_id :: "string option"
  req_include_context :: bool
  req_top_k :: int
  req_mode :: string

record chat_response =
  resp_success :: bool
  resp_response :: string
  resp_session_id :: string
  resp_processing_time :: real
  resp_context_used :: nat
  resp_error :: "string option"

text \<open>
  What one request reads from outside: the successive readings of \<^verbatim>\<open>time.time()\<close> and of
  \<^verbatim>\<open>datetime.now().isoformat()\<close>, the identifier \<^verbatim>\<open>str(uuid.uuid4())\<close>, and the completion
  service.
\<close>

record world =
  clock :: "nat \<Rightarrow> real"
  now :: "nat \<Rightarrow> string"
  uuid4 :: string
  post :: "llm_request \<Rightarrow> http_outcome"

text \<open>\<^verbatim>\<open>request.session_id or str(uuid.uuid4())\<close>\<close>

definition session_of :: "world \<Rightarrow> chat_request \<Rightarrow> string" where
  "session_of w request =
     (case req_session_id request of
        None \<Rightarrow> uuid4 w
      | Some s \<Rightarrow> if s = [] then uuid4 w else s)"

text \<open>Steps 1 and 2 of the \<^verbatim>\<open>try\<close> block: the history, then the context if it is asked for.\<close>

definition chat_context ::
  "lib \<Rightarrow> rag_engine \<Rightarrow> chat_request \<Rightarrow> exn + string \<times> retrieval list" where
  "chat_context L rag request =
     (if req_include_context request
      then get_relevant_context L rag (req_message request) (req_top_k request)
      else Inr ([], []))"

text \<open>Step 3 and the choice of the reply.\<close>

definition chat_llm_result ::
  "world \<Rightarrow> llm_engine \<Rightarrow> memory \<Rightarrow> chat_request \<Rightarrow> string \<Rightarrow> llm_result" where
  "chat_llm_result w llm mem request context_str =
     (let history = format_history_for_prompt mem (session_of w request) 5
      in generate_response (post w) llm (req_message request) context_str (Some history)
           (4 / 10) (req_mode request))"

definition bot_response_of :: "chat_request \<Rightarrow> llm_result \<Rightarrow> string" where
  "bot_response_of request llm_result =
     (if \<not> llm_success llm_result then get_fallback_response (req_message request)
      else llm_response llm_result)"

text \<open>Steps 4 and 5: two calls of \<^verbatim>\<open>add_message\<close>, then two of \<^verbatim>\<open>log_message\<close>.\<close>

definition chat_memory_update ::
  "lib \<Rightarrow> world \<Rightarrow> memory \<Rightarrow> string \<Rightarrow> string \<Rightarrow> string \<Rightarrow> nat \<Rightarrow> memory" where
  "chat_memory_update L w mem session_id user_message bot_response ndocs =
     (let mem1 = add_message mem session_id ''user'' user_message None (now w 0) (now w 1);
          mem2 = add_message mem1 session_id ''assistant'' bot_response None (now w 2) (now w 3);
          mem3 = log_message mem2 session_id ''user'' user_message ndocs None None (now w 4);
          mem4 = log_message mem3 session_id ''assistant'' bot_response ndocs
                   (Some (round3 L (clock w 1 - clock w 0))) None (now w 5)
      in mem4)"

text \<open>
  \<^verbatim>\<open>chat\<close>: the response and the memory after the request. \<open>clock w 0\<close> is \<^verbatim>\<open>t0\<close>. The
  only step of the \<^verbatim>\<open>try\<close> block that can raise is the formatting of the context, before
  the memory is touched; the \<^verbatim>\<open>except\<close> clause then reads the clock a second time.
\<close>

definition chat ::
  "lib \<Rightarrow> world \<Rightarrow> rag_engine \<Rightarrow> llm_engine \<Rightarrow> memory \<Rightarrow> chat_request \<Rightarrow> chat_response \<times> memory" where
  "chat L w rag llm mem request =
     (let t0 = clock w 0;
          session_id = session_of w request
      in case chat_context L rag request of
           Inl e \<Rightarrow>
             (\<lparr>resp_success = False, resp_response = ''Internal error.'',
               resp_session_id = session_id,
               resp_processing_time = round3 L (clock w 1 - t0),
               resp_context_used = 0, resp_error = Some (exn_str e)\<rparr>, mem)
         | Inr (context_str, docs) \<Rightarrow>
             (let llm_result = chat_llm_result w llm mem request context_str;
                  bot_response = bot_response_of request llm_result;
                  mem' = chat_memory_update L w mem session_id (req_message request) bot_response
                           (length docs)
              in (\<lparr>resp_success = True, resp_response = bot_response,
                    resp_session_id = session_id,
                    resp_processing_time = round3 L (clock w 2 - t0),
                    resp_context_used = length docs, resp_error = None\<rparr>, mem')))"

section \<open>Notions used in the statements\<close>

text \<open>The id of a document, \<^verbatim>\<open>doc.get("id")\<close>.\<close>

definition doc_id :: "document \<Rightarrow> pyval option" where
  "doc_id d = map_of d ''id''"

text \<open>
  The results built from a list of positions \<open>t\<close>, ranked from \<open>n\<close> on: what the loop of
  \<^verbatim>\<open>retrieve_context\<close> returns when no position is out of range.
\<close>

definition mk_results :: "document list \<Rightarrow> real list \<Rightarrow> nat \<Rightarrow> nat list \<Rightarrow> retrieval list" where
  "mk_results docs sims n t =
     map (\<lambda>(j, idx). \<lparr>r_document = docs ! idx, r_score = sims ! idx, r_rank = j\<rparr>) (enumerate n t)"

text \<open>The deque \<^verbatim>\<open>add_message\<close> appends to: the session's, or a new one.\<close>

definition history_deque :: "memory \<Rightarrow> string \<Rightarrow> message deque" where
  "history_deque mem sid =
     (case conversations mem sid of None \<Rightarrow> deque_new (max_messages mem) | Some d \<Rightarrow> d)"

text \<open>
  A request whose \<^verbatim>\<open>try\<close> block raises nothing; a run of requests on one memory, each in
  its own world; and the number of \<^verbatim>\<open>add_message\<close> calls of such a run, two for every
  request that raises nothing.
\<close>

definition chat_ok :: "lib \<Rightarrow> rag_engine \<Rightarrow> chat_request \<Rightarrow> bool" where
  "chat_ok L rag request = (case chat_context L rag request of Inl e \<Rightarrow> False | Inr p \<Rightarrow> True)"

definition chat_run ::
  "lib \<Rightarrow> rag_engine \<Rightarrow> llm_engine \<Rightarrow> memory \<Rightarrow> (world \<times> chat_request) list \<Rightarrow> memory" where
  "chat_run L rag llm mem calls = foldl (\<lambda>m (w, request). snd (chat L w rag llm m request)) mem calls"

definition history_additions :: "lib \<Rightarrow> rag_engine \<Rightarrow> (world \<times> chat_request) list \<Rightarrow> nat" where
  "history_additions L rag calls = 2 * length (filter (\<lambda>(w, request). chat_ok L rag request) calls)"

section \<open>Example data\<close>

text \<open>
  Library routines for the examples: insertion sort of the positions, the dot product (the
  cosine similarity of unit vectors), constant formats and no rounding; and the same with
  the other sort.
\<close>

definition unit_lib :: lib where
  "unit_lib =
     \<lparr>argsort = insertion_argsort,
      cosine_similarity = (\<lambda>q v. sum_list (map2 (*) q v)),
      format_percent = (\<lambda>x. ''100.00%''),
      dict_str = (\<lambda>d. ''{}''),
      round3 = (\<lambda>x. x)\<rparr>"

definition backward_lib :: lib where
  "backward_lib = unit_lib\<lparr>argsort := backward_argsort\<rparr>"

text \<open>
  Two FAQ entries with the same question and answer and no id, and an engine that holds
  their documents with equal vectors.
\<close>

definition tie_doc_a :: document where
  "tie_doc_a = faq_document [(''question'', ''q''), (''answer'', ''a''), (''category'', ''A'')]"

definition tie_doc_b :: document where
  "tie_doc_b = faq_document [(''question'', ''q''), (''answer'', ''a''), (''category'', ''B'')]"

definition tie_engine :: rag_engine where
  "tie_engine =
     (rag_init ''all-MiniLM-L6-v2'')
       \<lparr>model := Some (\<lambda>s. [1]), embeddings := Some [[1], [1]],
        documents := [tie_doc_a, tie_doc_b]\<rparr>"

text \<open>
  A knowledge base that has loaded one FAQ entry and one policy, and a data directory with
  a new FAQ file and no policy file.
\<close>

definition old_faq :: pydict where
  "old_faq = [(''id'', ''1''), (''question'', ''How do I reset my password?''),
              (''answer'', ''Use the login page.''), (''category'', ''Account'')]"

definition new_faq :: pydict where
  "new_faq = [(''id'', ''2''), (''question'', ''How do I pay?''),
              (''answer'', ''By card.''), (''category'', ''Billing'')]"

definition old_policy :: pydict where
  "old_policy = [(''id'', ''1''), (''title'', ''Refunds''), (''category'', ''Billing''),
                 (''content'', ''Within 30 days.'')]"

definition loaded_kb :: knowledge_base where
  "loaded_kb =
     \<lparr>data_dir = ''./data'', faqs = JList [Object old_faq], policies = JList [Object old_policy],
      all_documents = [faq_document old_faq, policy_document old_policy]\<rparr>"

definition faqs_only_fs :: "string \<rightharpoonup> json_file" where
  "faqs_only_fs = [''./data/faqs.json'' \<mapsto> Json_parsed (JList [Object new_faq])]"

text \<open>A data directory whose FAQ file holds a list and whose policy file holds a number.\<close>

definition number_policies_fs :: "string \<rightharpoonup> json_file" where
  "number_policies_fs =
     [''./data/faqs.json'' \<mapsto> Json_parsed (JList [Object new_faq]),
      ''./data/policies.json'' \<mapsto> Json_parsed (JScalar ''42'')]"

text \<open>
  The engine \<^verbatim>\<open>_setup_provider\<close> configures for the provider \<open>groq\<close> with a key, a world
  whose completion service never answers in time, an engine whose only document has no
  \<^verbatim>\<open>type\<close>, and a request with the defaults of \<^verbatim>\<open>ChatRequest\<close>.
\<close>

definition groq_engine :: "string \<Rightarrow> llm_engine" where
  "groq_engine key =
     \<lparr>provider = ''groq'', api_key = Some key, llm_model = Some ''llama-3.3-70b-versatile'',
      api_url = Some ''https://api.groq.com/openai/v1/chat/completions''\<rparr>"

definition timeout_world :: world where
  "timeout_world =
     \<lparr>clock = (\<lambda>n. 100 + real n), now = (\<lambda>n. ''2025-01-01T00:00:0'' @ str_nat n),
      uuid4 = ''6f1c2a9e-0000-4000-8000-000000000001'', post = (\<lambda>r. Timeout)\<rparr>"

definition malformed_engine :: rag_engine where
  "malformed_engine =
     (rag_init ''all-MiniLM-L6-v2'')
       \<lparr>model := Some (\<lambda>s. [1]), embeddings := Some [[1]],
        documents := [[(''id'', PStr ''faq_1'')]]\<rparr>"

definition reset_request :: chat_request where
  "reset_request =
     \<lparr>req_message = ''How do I reset my password?'', req_session_id = None,
      req_include_context = True, req_top_k = 3, req_mode = ''default''\<rparr>"

text \<open>A call of \<^verbatim>\<open>add_message\<close> in session \<open>s1\<close>.\<close>

definition say :: "string \<Rightarrow> string \<Rightarrow> add_call" where
  "say r c =
     \<lparr>call_session = ''s1'', call_role = r, call_content = c, call_metadata = None,
      call_now1 = ''t1'', call_now2 = ''t2''\<rparr>"

text \<open>A memory of the default capacity after one user message in session \<open>s1\<close>.\<close>

definition one_message_memory :: memory where
  "one_message_memory = add_message (memory_init 10) ''s1'' ''user'' ''hi'' None ''t1'' ''t2''"

section \<open>Properties of the conversation memory\<close>

lemma most_recent_snoc:
  "most_recent n (xs @ [x]) =
     (let ys = most_recent n xs @ [x] in if n < length ys then tl ys else ys)"
proof -
  consider "n = 0" | "length xs < n" | "0 < n" "n \<le> length xs" by linarith
  then show ?thesis
  proof cases
    case 1
    then show ?thesis by (simp add: most_recent_def Let_def)
  next
    case 2
    then show ?thesis by (simp add: most_recent_def Let_def)
  next
    case 3
    have len: "length (drop (length xs - n) xs) = n" using 3 by simp
    then obtain a as where as: "drop (length xs - n) xs = a # as"
      using 3 by (cases "drop (length xs - n) xs") auto
    have "Suc (length xs) - n = Suc (length xs - n)" using 3 by simp
    moreover have "Suc (length xs - n) - length xs = 0" using 3 by simp
    ultimately have "most_recent n (xs @ [x]) = drop (Suc (length xs - n)) xs @ [x]"
      by (simp add: most_recent_def)
    also have "\<dots> = tl (drop (length xs - n) xs) @ [x]"
      by (simp add: drop_Suc tl_drop)
    also have "\<dots> = tl (drop (length xs - n) xs @ [x])"
      using as by simp
    finally show ?thesis using len by (simp add: most_recent_def Let_def)
  qed
qed

lemma add_messages_snoc: "add_messages st (cs @ [c]) = add_call_run (add_messages st cs) c"
  by (simp add: add_messages_def)

lemma add_call_run_max_messages: "max_messages (add_call_run st c) = max_messages st"
  by (simp add: add_call_run_def add_message_def log_message_def Let_def)

lemma add_messages_max_messages: "max_messages (add_messages st cs) = max_messages st"
  by (induction cs rule: rev_induct) (simp_all add: add_messages_def add_call_run_max_messages)

text \<open>
  What every session holds after a run of calls on a fresh memory: a deque of the
  memory's capacity with the most recent messages sent to it.
\<close>

lemma add_messages_conversations:
  "conversations (add_messages (memory_init n) cs) sid =
     (if sent_to sid cs = [] then None
      else Some \<lparr>maxlen = n, items = most_recent n (sent_to sid cs)\<rparr>)"
proof (induction cs rule: rev_induct)
  case Nil
  show ?case by (simp add: add_messages_def memory_init_def sent_to_def)
next
  case (snoc c cs)
  let ?st = "add_messages (memory_init n) cs"
  have mm: "max_messages ?st = n"
    by (simp add: add_messages_max_messages memory_init_def)
  show ?case
  proof (cases "call_session c = sid")
    case False
    then have "conversations (add_call_run ?st c) sid = conversations ?st sid"
      by (simp add: add_call_run_def add_message_def log_message_def Let_def)
    moreover have "sent_to sid (cs @ [c]) = sent_to sid cs"
      using False by (simp add: sent_to_def)
    ultimately show ?thesis using snoc by (simp add: add_messages_snoc)
  next
    case True
    have snd: "sent_to sid (cs @ [c]) = sent_to sid cs @ [call_message c]"
      using True by (simp add: sent_to_def)
    have old: "(case conversations ?st sid of None \<Rightarrow> deque_new (max_messages ?st) | Some d \<Rightarrow> d) =
        \<lparr>maxlen = n, items = most_recent n (sent_to sid cs)\<rparr>"
      using snoc mm by (simp add: deque_new_def most_recent_def)
    have "conversations (add_call_run ?st c) sid =
        Some (deque_append \<lparr>maxlen = n, items = most_recent n (sent_to sid cs)\<rparr> (call_message c))"
      using True old
      by (simp add: add_call_run_def add_message_def log_message_def Let_def call_message_def)
    also have "\<dots> = Some \<lparr>maxlen = n, items = most_recent n (sent_to sid (cs @ [c]))\<rparr>"
      unfolding snd most_recent_snoc by (simp add: deque_append_def Let_def)
    finally show ?thesis using snd by (simp add: add_messages_snoc)
  qed
qed

text \<open>
  C4. On a memory created with capacity \<open>n\<close>, after any run of \<^verbatim>\<open>add_message\<close> calls the
  history of every session is exactly the \<open>n\<close> most recent messages sent to that session,
  oldest first (all of them when fewer than \<open>n\<close> were sent), so it never holds more than
  \<open>n\<close> messages; the global instance has capacity 10.
\<close>

theorem add_message_sliding_window:
  "get_conversation_history (add_messages (memory_init n) cs) sid = most_recent n (sent_to sid cs)
   \<and> length (get_conversation_history (add_messages (memory_init n) cs) sid) \<le> n
   \<and> max_messages conversation_memory = 10"
proof -
  have "max_messages conversation_memory = 10"
    by (simp add: conversation_memory_def memory_init_def)
  moreover have "get_conversation_history (add_messages (memory_init n) cs) sid =
      most_recent n (sent_to sid cs)"
    by (simp add: get_conversation_history_def add_messages_conversations most_recent_def)
  moreover have "length (most_recent n (sent_to sid cs)) \<le> n"
    by (simp add: most_recent_def)
  ultimately show ?thesis by simp
qed

theorem add_message_sliding_window_witness:
  "map msg_content (get_conversation_history
      (add_messages (memory_init 2) [say ''user'' ''a'', say ''assistant'' ''b'', say ''user'' ''c''])
      ''s1'') = [''b'', ''c'']"
  using add_message_sliding_window [of 2 "[say ''user'' ''a'', say ''assistant'' ''b'', say ''user'' ''c'']" "''s1''"]
  by (simp add: sent_to_def most_recent_def call_message_def say_def)

lemma one_message_memory_conversations:
  "conversations one_message_memory =
     [''s1'' \<mapsto> \<lparr>maxlen = 10, items =
        [\<lparr>msg_role = ''user'', msg_content = ''hi'', msg_timestamp = ''t1'', msg_metadata = []\<rparr>]\<rparr>]"
  by (simp add: one_message_memory_def add_message_def log_message_def memory_init_def
      deque_new_def deque_append_def or_empty_def Let_def)

lemma one_message_memory_log:
  "analytics_log one_message_memory =
     [\<lparr>log_session_id = ''s1'', log_role = ''user'', log_content = ''hi'', log_timestamp = ''t2'',
       log_context_used = 0, log_processing_time = None, log_metadata = []\<rparr>]"
  by (simp add: one_message_memory_def add_message_def log_message_def memory_init_def
      or_empty_def Let_def)

text \<open>
  For a positive \<open>n\<close>, \<^verbatim>\<open>get_last_n_messages\<close> is the last \<open>n\<close> messages of the history in
  their order, and \<^verbatim>\<open>format_history_for_prompt\<close> is the sentinel exactly when the session
  has no message.
\<close>

lemma get_last_n_messages_positive:
  "0 < n \<Longrightarrow>
     get_last_n_messages st sid n = most_recent (nat n) (get_conversation_history st sid)"
  by (auto simp: get_last_n_messages_def py_slice_from_def most_recent_def Let_def nat_diff_distrib'
      intro!: arg_cong2[where f = drop])

lemma format_history_for_prompt_empty:
  "get_conversation_history st sid = [] \<Longrightarrow>
     format_history_for_prompt st sid n = start_of_conversation"
  by (simp add: format_history_for_prompt_def get_last_n_messages_def Let_def)

text \<open>
  C5. With \<open>include_last_n = 0\<close> the slice \<^verbatim>\<open>history[-0:]\<close> is the whole history: on a
  session holding one message \<^verbatim>\<open>get_last_n_messages\<close> returns that message, and the
  transcript carries it, where at most zero messages were asked for.
\<close>

theorem format_history_last_zero:
  "get_last_n_messages one_message_memory ''s1'' 0 = get_conversation_history one_message_memory ''s1''
   \<and> length (get_last_n_messages one_message_memory ''s1'' 0) = 1
   \<and> format_history_for_prompt one_message_memory ''s1'' 0 =
       ''Previous conversation:'' @ nl @ ''User: hi''"
  by (simp add: format_history_for_prompt_def get_last_n_messages_def py_slice_from_def
      get_conversation_history_def one_message_memory_conversations format_message_def Let_def)

text \<open>
  C8. \<^verbatim>\<open>clear_session\<close> removes the session's history; clearing a session that is not
  there returns the memory as it is, so clearing twice is clearing once; and the analytics
  log, with the summary computed from it, is the same before and after, the records of the
  cleared session included.
\<close>

theorem clear_session_keeps_analytics:
  "conversations (clear_session st sid) sid = None
   \<and> get_conversation_history (clear_session st sid) sid = []
   \<and> (conversations st sid = None \<longrightarrow> clear_session st sid = st)
   \<and> clear_session (clear_session st sid) sid = clear_session st sid
   \<and> analytics_log (clear_session st sid) = analytics_log st
   \<and> get_analytics_summary (clear_session st sid) = get_analytics_summary st"
  by (simp add: clear_session_def get_conversation_history_def get_analytics_summary_def
      split: option.splits)

theorem clear_session_keeps_analytics_witness:
  "conversations one_message_memory ''s2'' = None
   \<and> clear_session one_message_memory ''s2'' = one_message_memory
   \<and> conversations (clear_session one_message_memory ''s1'') ''s1'' = None
   \<and> analytics_log (clear_session one_message_memory ''s1'') =
       [\<lparr>log_session_id = ''s1'', log_role = ''user'', log_content = ''hi'', log_timestamp = ''t2'',
         log_context_used = 0, log_processing_time = None, log_metadata = []\<rparr>]"
  using clear_session_keeps_analytics [of one_message_memory "''s2''"]
    clear_session_keeps_analytics [of one_message_memory "''s1''"]
  by (simp add: one_message_memory_conversations one_message_memory_log)

section \<open>Properties of the embedding index\<close>

lemma collect_results_eq:
  "collect_results docs sims idxs acc =
     (if \<forall>i\<in>set idxs. i < length docs \<and> i < length sims
      then Inr (acc @ map (\<lambda>(j, idx). \<lparr>r_document = docs ! idx, r_score = sims ! idx, r_rank = j\<rparr>)
                        (enumerate (Suc (length acc)) idxs))
      else Inl (IndexError ''list index out of range''))"
  by (induction idxs arbitrary: acc) auto

lemma insertion_argsort_is_argsort: "is_argsort xs (insertion_argsort xs)"
  by (simp add: is_argsort_def insertion_argsort_def)

lemma backward_argsort_is_argsort: "is_argsort xs (backward_argsort xs)"
  by (simp add: is_argsort_def backward_argsort_def)

lemma retrieve_context_eq:
  assumes "embeddings st = Some es" "es \<noteq> []" "model st = Some encode"
  shows "retrieve_context L st q k =
     (if \<forall>i\<in>set (top_indices_of L (similarities_of L encode q es) k).
           i < length (documents st) \<and> i < length es
      then map (\<lambda>(j, idx). \<lparr>r_document = documents st ! idx,
                  r_score = similarities_of L encode q es ! idx, r_rank = j\<rparr>)
             (enumerate 1 (top_indices_of L (similarities_of L encode q es) k))
      else [])"
proof -
  have len: "length (similarities_of L encode q es) = length es"
    by (simp add: similarities_of_def)
  show ?thesis
    using assms by (simp add: retrieve_context_def collect_results_eq len Let_def)
qed

lemma py_slice_last: "1 \<le> k \<Longrightarrow> py_slice_from xs (- k) = most_recent (nat k) xs"
  by (auto simp: py_slice_from_def most_recent_def nat_diff_distrib' intro!: arg_cong2[where f = drop])

lemma top_indices_props:
  assumes "1 \<le> k" "is_argsort sims (argsort L sims)"
  shows "length (top_indices_of L sims k) \<le> nat k"
    and "distinct (top_indices_of L sims k)"
    and "set (top_indices_of L sims k) \<subseteq> {0..<length sims}"
    and "sorted_wrt (\<ge>) (map ((!) sims) (top_indices_of L sims k))"
proof -
  let ?js = "argsort L sims"
  have t: "top_indices_of L sims k = rev (drop (length ?js - nat k) ?js)"
    using assms(1) by (simp add: top_indices_of_def py_slice_last most_recent_def)
  show "length (top_indices_of L sims k) \<le> nat k" by (simp add: t)
  show "distinct (top_indices_of L sims k)"
    using assms(2) by (simp add: t is_argsort_def)
  show "set (top_indices_of L sims k) \<subseteq> {0..<length sims}"
    using assms(2) set_drop_subset[of "length ?js - nat k" ?js] by (auto simp: t is_argsort_def)
  have "sorted (drop (length ?js - nat k) (map ((!) sims) ?js))"
    using assms(2) by (simp add: is_argsort_def sorted_wrt_drop)
  then have "sorted_wrt (\<ge>) (rev (map ((!) sims) (drop (length ?js - nat k) ?js)))"
    by (simp add: sorted_wrt_rev drop_map)
  then show "sorted_wrt (\<ge>) (map ((!) sims) (top_indices_of L sims k))"
    by (simp add: t rev_map)
qed

lemma top_indices_best:
  assumes "1 \<le> k" "is_argsort sims (argsort L sims)"
  shows "length (top_indices_of L sims k) = min (nat k) (length sims)"
    and "\<forall>i<length sims. i \<notin> set (top_indices_of L sims k) \<longrightarrow>
           (\<forall>j\<in>set (top_indices_of L sims k). sims ! i \<le> sims ! j)"
proof -
  let ?js = "argsort L sims"
  let ?m = "length ?js - nat k"
  have t: "top_indices_of L sims k = rev (drop ?m ?js)"
    using assms(1) by (simp add: top_indices_of_def py_slice_last most_recent_def)
  have d: "distinct ?js" and js: "set ?js = {0..<length sims}"
    using assms(2) by (simp_all add: is_argsort_def)
  have "card (set ?js) = length ?js"
    using d by (rule distinct_card)
  then have len: "length ?js = length sims"
    by (simp add: js)
  show "length (top_indices_of L sims k) = min (nat k) (length sims)"
    using len by (simp add: t)
  have "sorted (map ((!) sims) (take ?m ?js) @ map ((!) sims) (drop ?m ?js))"
    using assms(2) by (simp add: is_argsort_def flip: map_append)
  then have le: "\<forall>x\<in>set (take ?m ?js). \<forall>y\<in>set (drop ?m ?js). sims ! x \<le> sims ! y"
    by (simp add: sorted_append)
  have "set ?js = set (take ?m ?js) \<union> set (drop ?m ?js)"
    by (metis append_take_drop_id set_append)
  then have "i < length sims \<Longrightarrow> i \<notin> set (drop ?m ?js) \<Longrightarrow> i \<in> set (take ?m ?js)" for i
    using assms(2) by (auto simp: is_argsort_def)
  then show "\<forall>i<length sims. i \<notin> set (top_indices_of L sims k) \<longrightarrow>
           (\<forall>j\<in>set (top_indices_of L sims k). sims ! i \<le> sims ! j)"
    using le by (simp add: t)
qed

lemma mk_results_document: "map r_document (mk_results docs sims n t) = map ((!) docs) t"
  unfolding mk_results_def by (induction t arbitrary: n) auto

lemma mk_results_score: "map r_score (mk_results docs sims n t) = map ((!) sims) t"
  unfolding mk_results_def by (induction t arbitrary: n) auto

lemma mk_results_rank: "map r_rank (mk_results docs sims n t) = [n..<n + length t]"
proof -
  have "map r_rank (mk_results docs sims n t) = map fst (enumerate n t)"
    unfolding mk_results_def by (induction t arbitrary: n) auto
  then show ?thesis by (simp add: map_fst_enumerate)
qed

lemma mk_results_length: "length (mk_results docs sims n t) = length t"
  by (simp add: mk_results_def)

lemma distinct_ids:
  assumes "distinct (map doc_id docs)" "distinct t" "\<forall>i\<in>set t. i < length docs"
  shows "distinct (map (\<lambda>i. doc_id (docs ! i)) t)"
proof -
  have "inj_on (\<lambda>i. doc_id (docs ! i)) (set t)"
  proof (rule inj_onI)
    fix i j assume "i \<in> set t" "j \<in> set t" "doc_id (docs ! i) = doc_id (docs ! j)"
    then have ij: "i < length (map doc_id docs)" "j < length (map doc_id docs)"
      and eq: "map doc_id docs ! i = map doc_id docs ! j"
      using assms(3) by auto
    show "i = j" using nth_eq_iff_index_eq[OF assms(1) ij] eq by blast
  qed
  then show ?thesis using assms(2) by (simp add: distinct_map)
qed

text \<open>
  C1. On a non-empty index with its encoder loaded, for \<open>top_k \<ge> 1\<close> and a score array
  that \<^verbatim>\<open>numpy.argsort\<close> sorts, \<^verbatim>\<open>retrieve_context\<close> returns at most \<open>top_k\<close> results, in
  non-increasing order of score, with ranks 1, 2, ... When the documents are as many as the
  vectors, the results are the documents at the positions \<^verbatim>\<open>argsort(scores)[-top_k:][::-1]\<close>,
  no position twice, as many as \<open>top_k\<close> or the whole corpus if it is smaller, and no
  position left out has a higher score than one returned. No document id is returned
  twice when the ids of the corpus are distinct. Nothing breaks ties: the positions are
  the last \<open>top_k\<close> of \<^verbatim>\<open>argsort\<close>'s list, reversed, so equal scores come in the reverse of
  whatever order \<^verbatim>\<open>argsort\<close> lists them in.
\<close>

theorem retrieve_context_ranked:
  fixes L st q k es encode
  defines "sims \<equiv> similarities_of L encode q es"
  defines "res \<equiv> retrieve_context L st q k"
  defines "t \<equiv> top_indices_of L sims k"
  assumes "embeddings st = Some es" "es \<noteq> []" "model st = Some encode" "1 \<le> k"
    and "is_argsort sims (argsort L sims)"
  shows "length res \<le> nat k
    \<and> sorted_wrt (\<ge>) (map r_score res)
    \<and> map r_rank res = [1..<Suc (length res)]
    \<and> (distinct (map doc_id (documents st)) \<longrightarrow> distinct (map (\<lambda>r. doc_id (r_document r)) res))
    \<and> (length (documents st) = length es \<longrightarrow>
         map r_document res = map ((!) (documents st)) t \<and> map r_score res = map ((!) sims) t
         \<and> distinct t \<and> length res = min (nat k) (length es)
         \<and> (\<forall>i<length es. i \<notin> set t \<longrightarrow> (\<forall>j\<in>set t. sims ! i \<le> sims ! j)))
    \<and> t = rev (drop (length es - nat k) (argsort L sims))"
proof -
  have len: "length sims = length es" by (simp add: sims_def similarities_of_def)
  note tp = top_indices_props[OF assms(7,8), folded t_def]
  note tb = top_indices_best[OF assms(7,8), folded t_def, unfolded len]
  have sub: "\<forall>i\<in>set t. i < length es" using tp(3) len by auto
  have res: "res = (if \<forall>i\<in>set t. i < length (documents st)
      then mk_results (documents st) sims 1 t else [])"
    unfolding res_def retrieve_context_eq[OF assms(4,5,6)] using sub
    by (simp add: sims_def t_def mk_results_def)
  have "length (argsort L sims) = length sims"
    using assms(8) distinct_card[of "argsort L sims"] by (simp add: is_argsort_def)
  then have stab: "t = rev (drop (length es - nat k) (argsort L sims))"
    using assms(7) by (simp add: t_def top_indices_of_def py_slice_last most_recent_def len)
  show ?thesis
  proof (cases "\<forall>i\<in>set t. i < length (documents st)")
    case False
    then have "res = []" by (subst res) (simp only: False if_False)
    moreover have "length (documents st) \<noteq> length es" using False sub by auto
    ultimately show ?thesis using stab by simp
  next
    case True
    then have r: "res = mk_results (documents st) sims 1 t" using res by simp
    have c1: "length res \<le> nat k" using tp(1) by (simp add: r mk_results_length)
    have c2: "sorted_wrt (\<ge>) (map r_score res)" using tp(4) by (simp add: r mk_results_score)
    have c3: "map r_rank res = [1..<Suc (length res)]"
      by (simp add: r mk_results_rank mk_results_length)
    have "map (\<lambda>r. doc_id (r_document r)) res = map doc_id (map r_document res)"
      by simp
    also have "\<dots> = map (\<lambda>i. doc_id (documents st ! i)) t"
      by (simp add: r mk_results_document)
    finally have c4: "distinct (map doc_id (documents st)) \<longrightarrow>
        distinct (map (\<lambda>r. doc_id (r_document r)) res)"
      using distinct_ids[OF _ tp(2) True] by simp
    have c5: "map r_document res = map ((!) (documents st)) t \<and>
        map r_score res = map ((!) sims) t \<and> distinct t \<and> length res = min (nat k) (length es)
        \<and> (\<forall>i<length es. i \<notin> set t \<longrightarrow> (\<forall>j\<in>set t. sims ! i \<le> sims ! j))"
      using tp(2) tb by (simp add: r mk_results_document mk_results_score mk_results_length)
    show ?thesis using c1 c2 c3 c4 c5 stab by blast
  qed
qed

lemma tie_docs_differ: "tie_doc_a \<noteq> tie_doc_b"
  by (simp add: tie_doc_a_def tie_doc_b_def faq_document_def dict_get_def)

lemma tie_retrieve:
  "retrieve_context unit_lib tie_engine ''q'' 2 =
     [\<lparr>r_document = tie_doc_b, r_score = 1, r_rank = 1\<rparr>,
      \<lparr>r_document = tie_doc_a, r_score = 1, r_rank = 2\<rparr>]"
  by (simp add: retrieve_context_def tie_engine_def rag_init_def unit_lib_def similarities_of_def
      top_indices_of_def insertion_argsort_def py_slice_from_def upt_rec Let_def)

text \<open>
  Two FAQ entries without an id and the same question and answer have the same id
  \<open>faq_NA\<close> and the same score. Both are returned, so the id is returned twice; with an
  \<^verbatim>\<open>argsort\<close> that lists the two positions in ascending order, the second document of the
  corpus is ranked first.
\<close>

theorem retrieve_context_tie_counterexample:
  "map r_document (retrieve_context unit_lib tie_engine ''q'' 2) = [tie_doc_b, tie_doc_a]
   \<and> map r_score (retrieve_context unit_lib tie_engine ''q'' 2) = [1, 1]
   \<and> documents tie_engine = [tie_doc_a, tie_doc_b]
   \<and> tie_doc_a \<noteq> tie_doc_b
   \<and> map (doc_id \<circ> r_document) (retrieve_context unit_lib tie_engine ''q'' 2) =
       [Some (PStr ''faq_NA''), Some (PStr ''faq_NA'')]"
  by (simp add: tie_retrieve tie_docs_differ)
     (simp add: tie_engine_def rag_init_def tie_doc_a_def tie_doc_b_def doc_id_def faq_document_def
       dict_get_def)

theorem retrieve_context_ranked_witness:
  "embeddings tie_engine = Some [[1], [1]]
   \<and> is_argsort (similarities_of unit_lib (\<lambda>s. [1]) ''q'' [[1], [1]])
        (argsort unit_lib (similarities_of unit_lib (\<lambda>s. [1]) ''q'' [[1], [1]]))
   \<and> length (retrieve_context unit_lib tie_engine ''q'' 1) \<le> 1
   \<and> map r_rank (retrieve_context unit_lib tie_engine ''q'' 1) = [1]
   \<and> map r_document (retrieve_context unit_lib tie_engine ''q'' 1) = [tie_doc_b]"
proof -
  have e: "embeddings tie_engine = Some [[1], [1]]" and m: "model tie_engine = Some (\<lambda>s. [1])"
    and d: "documents tie_engine = [tie_doc_a, tie_doc_b]"
    by (simp_all add: tie_engine_def rag_init_def)
  have a: "is_argsort (similarities_of unit_lib (\<lambda>s. [1]) ''q'' [[1], [1]])
        (argsort unit_lib (similarities_of unit_lib (\<lambda>s. [1]) ''q'' [[1], [1]]))"
    by (simp add: unit_lib_def insertion_argsort_is_argsort)
  have t: "top_indices_of unit_lib (similarities_of unit_lib (\<lambda>s. [1]) ''q'' [[1], [1]]) 1 = [1]"
    by (simp add: unit_lib_def similarities_of_def top_indices_of_def insertion_argsort_def
        py_slice_from_def upt_rec)
  let ?res = "retrieve_context unit_lib tie_engine ''q'' 1"
  have th: "length ?res \<le> nat 1 \<and> map r_rank ?res = [1..<Suc (length ?res)]
      \<and> (length (documents tie_engine) = length [[1::real], [1]] \<longrightarrow>
           map r_document ?res = map ((!) (documents tie_engine))
             (top_indices_of unit_lib (similarities_of unit_lib (\<lambda>s. [1]) ''q'' [[1], [1]]) 1))"
    using retrieve_context_ranked [of tie_engine "[[1], [1]]" "\<lambda>s. [1]" 1 unit_lib "''q''"] e m a
    by simp
  then have docs: "map r_document ?res = [tie_doc_b]" by (simp add: d t)
  then have "length (map r_document ?res) = 1" by simp
  then have "length ?res = 1" by simp
  then show ?thesis using th docs e a by simp
qed

text \<open>
  With an \<^verbatim>\<open>argsort\<close> that lists equal scores by descending position, the same engine
  ranks the first document of the corpus first: the order of equal scores is the sort's.
\<close>

lemma tie_retrieve_backward:
  "is_argsort [1, 1] (argsort backward_lib [1, 1])
   \<and> map r_document (retrieve_context backward_lib tie_engine ''q'' 2) = [tie_doc_a, tie_doc_b]"
proof -
  have "is_argsort [1, 1] (argsort backward_lib [1, 1])"
    by (simp add: backward_lib_def unit_lib_def backward_argsort_is_argsort)
  moreover have "map r_document (retrieve_context backward_lib tie_engine ''q'' 2) =
      [tie_doc_a, tie_doc_b]"
    by (simp add: retrieve_context_def tie_engine_def rag_init_def backward_lib_def unit_lib_def
        similarities_of_def top_indices_of_def backward_argsort_def py_slice_from_def upt_rec
        Let_def)
  ultimately show ?thesis by simp
qed

text \<open>
  C6. When the engine has no embeddings (none built yet, or an empty array),
  \<^verbatim>\<open>retrieve_context\<close> returns the empty list, whatever the query and \<open>top_k\<close>; the model
  function is total, so no exception leaves it.
\<close>

theorem retrieve_context_no_vectors:
  "embeddings st = None \<or> embeddings st = Some [] \<Longrightarrow> retrieve_context L st query top_k = []"
  by (auto simp: retrieve_context_def)

theorem retrieve_context_no_vectors_witness:
  "embeddings (rag_init ''all-MiniLM-L6-v2'') = None
   \<and> retrieve_context unit_lib (rag_init ''all-MiniLM-L6-v2'') ''How do I reset password?'' 2 = []
   \<and> retrieve_context unit_lib ((rag_init ''all-MiniLM-L6-v2'')\<lparr>embeddings := Some []\<rparr>)
         ''How do I reset password?'' 2 = []"
  using retrieve_context_no_vectors [of "rag_init ''all-MiniLM-L6-v2''" unit_lib "''How do I reset password?''" 2]
    retrieve_context_no_vectors [of "(rag_init ''all-MiniLM-L6-v2'')\<lparr>embeddings := Some []\<rparr>" unit_lib
      "''How do I reset password?''" 2]
  by (simp add: rag_init_def)

text \<open>
  C9. \<^verbatim>\<open>_save_vector_store\<close> writes the embeddings, the documents and the model name of
  the engine. An engine of the same store path that loads this file succeeds exactly when
  its model name is the saved one, and then holds the saved embeddings and documents;
  with another model name the load fails and changes nothing. A load of any store
  succeeds only on a readable snapshot whose model name is the engine's. The pickled file
  is modelled by the value it holds.
\<close>

theorem vector_store_round_trip:
  "vector_store_path st' = vector_store_path st \<Longrightarrow>
     save_vector_store st fs (path_join (vector_store_path st) ''vectors.pkl'') =
       Some (Pickled \<lparr>snap_embeddings = embeddings st, snap_documents = documents st,
                      snap_model_name = model_name st\<rparr>)
     \<and> (model_name st' = model_name st \<longrightarrow>
          load_vector_store st' (save_vector_store st fs) =
            (True, st'\<lparr>embeddings := embeddings st, documents := documents st\<rparr>))
     \<and> (model_name st' \<noteq> model_name st \<longrightarrow>
          load_vector_store st' (save_vector_store st fs) = (False, st'))
     \<and> (fst (load_vector_store st' fs') \<longrightarrow>
          (\<exists>d. fs' (path_join (vector_store_path st') ''vectors.pkl'') = Some (Pickled d)
              \<and> snap_model_name d = model_name st'
              \<and> snd (load_vector_store st' fs') =
                    st'\<lparr>embeddings := snap_embeddings d, documents := snap_documents d\<rparr>))"
  by (auto simp: save_vector_store_def load_vector_store_def split: option.splits pickle_file.splits)

theorem vector_store_round_trip_witness:
  "load_vector_store (rag_init ''all-MiniLM-L6-v2'') (save_vector_store tie_engine Map.empty) =
     (True, (rag_init ''all-MiniLM-L6-v2'')\<lparr>embeddings := Some [[1], [1]],
        documents := [tie_doc_a, tie_doc_b]\<rparr>)
   \<and> load_vector_store (rag_init ''other-model'') (save_vector_store tie_engine Map.empty) =
     (False, rag_init ''other-model'')
   \<and> fst (load_vector_store (rag_init ''all-MiniLM-L6-v2'') (save_vector_store tie_engine Map.empty))"
  using vector_store_round_trip [of "rag_init ''all-MiniLM-L6-v2''" tie_engine Map.empty
      "save_vector_store tie_engine Map.empty"]
    vector_store_round_trip [of "rag_init ''other-model''" tie_engine Map.empty Map.empty]
  by (simp add: rag_init_def tie_engine_def)

section \<open>Properties of the knowledge base, the prompt builder and the orchestrator\<close>

lemma load_data_with_cases:
  "load_data_with prepare fs st =
     (case fs (path_join (data_dir st) ''faqs.json'') of
        Some (Json_parsed fv) \<Rightarrow>
          (case fs (path_join (data_dir st) ''policies.json'') of
             Some (Json_parsed pv) \<Rightarrow>
               (case prepare (st\<lparr>faqs := fv, policies := pv\<rparr>) of
                  Inl e \<Rightarrow> (False, st\<lparr>faqs := fv, policies := pv\<rparr>)
                | Inr docs \<Rightarrow> (True, st\<lparr>faqs := fv, policies := pv, all_documents := docs\<rparr>))
           | _ \<Rightarrow> (False, st\<lparr>faqs := fv\<rparr>))
      | _ \<Rightarrow> (False, st))"
  by (simp add: load_data_with_def Let_def split: option.splits json_file.splits sum.splits)

lemma load_data_with_all_documents:
  "\<not> fst (load_data_with prepare fs st) \<Longrightarrow>
     all_documents (snd (load_data_with prepare fs st)) = all_documents st"
  unfolding load_data_with_cases
  by (auto split: option.splits json_file.splits sum.splits)

text \<open>
  C2. \<^verbatim>\<open>load_data\<close>, in both files, returns \<open>False\<close> when either collection is absent.
  When the FAQ collection is absent the object is left as it was. When the FAQ file is
  read and the policy collection is absent, \<^verbatim>\<open>self.faqs\<close> has already been replaced by
  what was just read, and the policies are as before. The prepared documents are as
  before in every failed load.
\<close>

theorem load_data_failure:
  fixes fs :: "string \<rightharpoonup> json_file" and st :: knowledge_base
  defines "faqs_path \<equiv> path_join (data_dir st) ''faqs.json''"
  defines "policies_path \<equiv> path_join (data_dir st) ''policies.json''"
  shows "(fs faqs_path = None \<longrightarrow> load_data fs st = (False, st) \<and> kb_load_data fs st = (False, st))
    \<and> (fs policies_path = None \<longrightarrow>
         \<not> fst (load_data fs st) \<and> \<not> fst (kb_load_data fs st)
         \<and> policies (snd (load_data fs st)) = policies st
         \<and> policies (snd (kb_load_data fs st)) = policies st)
    \<and> (\<not> fst (load_data fs st) \<longrightarrow> all_documents (snd (load_data fs st)) = all_documents st)
    \<and> (\<not> fst (kb_load_data fs st) \<longrightarrow>
         all_documents (snd (kb_load_data fs st)) = all_documents st)
    \<and> (fs policies_path = None \<longrightarrow>
         (\<forall>fv. fs faqs_path = Some (Json_parsed fv) \<longrightarrow>
            load_data fs st = (False, st\<lparr>faqs := fv\<rparr>)
            \<and> kb_load_data fs st = (False, st\<lparr>faqs := fv\<rparr>)))"
proof -
  have a: "fs faqs_path = None \<longrightarrow> load_data_with prepare fs st = (False, st)" for prepare
    unfolding faqs_path_def load_data_with_cases by (simp split: option.splits)
  have b: "fs policies_path = None \<longrightarrow>
      \<not> fst (load_data_with prepare fs st)
      \<and> policies (snd (load_data_with prepare fs st)) = policies st" for prepare
    unfolding policies_path_def load_data_with_cases
    by (simp split: option.splits json_file.splits)
  have c: "fs policies_path = None \<longrightarrow>
      (\<forall>fv. fs faqs_path = Some (Json_parsed fv) \<longrightarrow>
         load_data_with prepare fs st = (False, st\<lparr>faqs := fv\<rparr>))" for prepare
    unfolding faqs_path_def policies_path_def load_data_with_cases by simp
  show ?thesis
    unfolding load_data_def kb_load_data_def
    using a[of prepare_documents] a[of kb_prepare_documents]
      b[of prepare_documents] b[of kb_prepare_documents]
      c[of prepare_documents] c[of kb_prepare_documents]
      load_data_with_all_documents[of prepare_documents fs st]
      load_data_with_all_documents[of kb_prepare_documents fs st]
    by blast
qed

lemma faqs_only_paths:
  "faqs_only_fs (path_join (data_dir loaded_kb) ''faqs.json'') =
     Some (Json_parsed (JList [Object new_faq]))"
  "faqs_only_fs (path_join (data_dir loaded_kb) ''policies.json'') = None"
  by (simp_all add: faqs_only_fs_def loaded_kb_def path_join_def)

text \<open>
  A loaded knowledge base, then a load from a directory that holds new FAQ entries and
  no policy file: the load fails and the FAQ entries are the new ones.
\<close>

theorem load_data_partial_counterexample:
  "load_data faqs_only_fs loaded_kb = (False, loaded_kb\<lparr>faqs := JList [Object new_faq]\<rparr>)
   \<and> kb_load_data faqs_only_fs loaded_kb = (False, loaded_kb\<lparr>faqs := JList [Object new_faq]\<rparr>)
   \<and> faqs loaded_kb = JList [Object old_faq]
   \<and> loaded_kb\<lparr>faqs := JList [Object new_faq]\<rparr> \<noteq> loaded_kb"
proof -
  have "old_faq \<noteq> new_faq" by (simp add: old_faq_def new_faq_def)
  moreover have "faqs loaded_kb = JList [Object old_faq]" by (simp add: loaded_kb_def)
  moreover have "faqs (loaded_kb\<lparr>faqs := JList [Object new_faq]\<rparr>) = JList [Object new_faq]"
    by simp
  ultimately have "loaded_kb\<lparr>faqs := JList [Object new_faq]\<rparr> \<noteq> loaded_kb"
    by (metis json_value.inject(1) json_item.inject(1) list.inject)
  then show ?thesis
    by (simp add: load_data_def kb_load_data_def load_data_with_cases faqs_only_paths)
       (simp add: loaded_kb_def)
qed

theorem load_data_failure_witness:
  "faqs_only_fs (path_join (data_dir loaded_kb) ''policies.json'') = None
   \<and> \<not> fst (load_data faqs_only_fs loaded_kb)
   \<and> policies (snd (load_data faqs_only_fs loaded_kb)) = JList [Object old_policy]
   \<and> all_documents (snd (load_data faqs_only_fs loaded_kb)) =
       [faq_document old_faq, policy_document old_policy]
   \<and> Map.empty (path_join (data_dir loaded_kb) ''faqs.json'') = (None :: json_file option)
   \<and> load_data Map.empty loaded_kb = (False, loaded_kb)
   \<and> kb_load_data Map.empty loaded_kb = (False, loaded_kb)"
  using load_data_failure [of faqs_only_fs loaded_kb] load_data_failure [of Map.empty loaded_kb]
    faqs_only_paths
  by (simp add: loaded_kb_def)

text \<open>
  When both files are read and the policy file holds a number, the load fails in
  \<^verbatim>\<open>_prepare_documents\<close>, after both assignments: the FAQ entries and the policies are the
  new values, the prepared documents the old ones.
\<close>

lemma load_data_number_policies:
  "load_data number_policies_fs loaded_kb =
     (False, loaded_kb\<lparr>faqs := JList [Object new_faq], policies := JScalar ''42''\<rparr>)
   \<and> kb_load_data number_policies_fs loaded_kb =
     (False, loaded_kb\<lparr>faqs := JList [Object new_faq], policies := JScalar ''42''\<rparr>)"
  by (simp add: load_data_def kb_load_data_def load_data_with_cases number_policies_fs_def
      loaded_kb_def path_join_def prepare_documents_def kb_prepare_documents_def entries_of_def)

text \<open>
  C7. \<^verbatim>\<open>build_prompt\<close> takes the business instruction for the mode \<open>business\<close>, the
  education instruction for \<open>education\<close> and the general-purpose instruction for every
  other mode. The user payload is the history section, there exactly when the history is a
  non-empty string, then the context section, there exactly when the context is non-empty,
  then the question block with the query as it is, which is always there. So the payload
  is the concatenation of the non-empty sections for every non-empty query, and for the
  empty query it ends with a question block that is empty.
\<close>

theorem build_prompt_sections:
  "fst (build_prompt q c h m) =
     (if m = ''business'' then business_prompt
      else if m = ''education'' then education_prompt else default_prompt)
   \<and> (m \<noteq> ''business'' \<and> m \<noteq> ''education'' \<longrightarrow> fst (build_prompt q c h m) = default_prompt)
   \<and> snd (build_prompt q c h m) =
       concat (map (\<lambda>(label, body). labelled_block label body) (payload_sections [] c h)) @
       labelled_block ''User Question:'' q
   \<and> (q \<noteq> [] \<longrightarrow>
        snd (build_prompt q c h m) =
          concat (map (\<lambda>(label, body). labelled_block label body) (payload_sections q c h)))
   \<and> snd (build_prompt [] c h m) =
       concat (map (\<lambda>(label, body). labelled_block label body) (payload_sections [] c h)) @
       labelled_block ''User Question:'' []
   \<and> map fst (payload_sections q c h) =
       (if h = None \<or> h = Some [] then [] else [''Conversation History:'']) @
       (if c = [] then [] else [''Context:'']) @
       (if q = [] then [] else [''User Question:''])
   \<and> (\<forall>(label, body) \<in> set (payload_sections q c h). body \<noteq> [])"
  by (auto simp: build_prompt_def payload_sections_def labelled_block_def Let_def
      split: option.splits)

lemma prompts_differ:
  "business_prompt \<noteq> education_prompt" "business_prompt \<noteq> default_prompt"
  "education_prompt \<noteq> default_prompt"
  by (simp_all add: business_prompt_def education_prompt_def default_prompt_def)

text \<open>
  With nothing but an empty query, the payload is the question label over an empty body,
  where no section is non-empty.
\<close>

theorem build_prompt_empty_query_counterexample:
  "snd (build_prompt [] [] None ''default'') = labelled_block ''User Question:'' []
   \<and> labelled_block ''User Question:'' [] = ''User Question:'' @ nl @ nl
   \<and> payload_sections [] [] None = []"
  by (simp add: build_prompt_def payload_sections_def labelled_block_def)

theorem build_prompt_sections_witness:
  "fst (build_prompt ''Hi?'' [] None ''pirate'') = default_prompt
   \<and> snd (build_prompt ''Hi?'' [] None ''pirate'') = ''User Question:'' @ nl @ ''Hi?'' @ nl
   \<and> snd (build_prompt ''Hi?'' ''ctx'' (Some ''hist'') ''business'') =
       ''Conversation History:'' @ nl @ ''hist'' @ nl @ ''Context:'' @ nl @ ''ctx'' @ nl @
       ''User Question:'' @ nl @ ''Hi?'' @ nl
   \<and> fst (build_prompt ''Hi?'' ''ctx'' (Some ''hist'') ''business'') = business_prompt"
  using build_prompt_sections [of "''Hi?''" "[]" None "''pirate''"]
    build_prompt_sections [of "''Hi?''" "''ctx''" "Some ''hist''" "''business''"]
  by (simp add: payload_sections_def labelled_block_def)

text \<open>
  C3. When no step of the \<^verbatim>\<open>try\<close> block raises, \<^verbatim>\<open>chat\<close> answers with \<open>success = True\<close>
  and no error, and when the generation has failed (as it does when the service times out)
  the response is the fallback text for the message, which contains the message. \<^verbatim>\<open>chat\<close>
  answers with \<open>success = False\<close> exactly when an exception is raised inside the block;
  the answer then carries the text of the exception and the time elapsed since entry,
  and the memory is untouched.
\<close>

theorem chat_fallback:
  "(case chat_context L rag request of
      Inl e \<Rightarrow>
        chat L w rag llm mem request =
          (\<lparr>resp_success = False, resp_response = ''Internal error.'',
            resp_session_id = session_of w request,
            resp_processing_time = round3 L (clock w 1 - clock w 0),
            resp_context_used = 0, resp_error = Some (exn_str e)\<rparr>, mem)
    | Inr (context_str, docs) \<Rightarrow>
        resp_success (fst (chat L w rag llm mem request))
        \<and> resp_error (fst (chat L w rag llm mem request)) = None
        \<and> (\<not> llm_success (chat_llm_result w llm mem request context_str) \<longrightarrow>
             resp_response (fst (chat L w rag llm mem request)) =
               get_fallback_response (req_message request))
        \<and> ((\<forall>r. post w r = Timeout) \<longrightarrow>
             resp_response (fst (chat L w rag llm mem request)) =
               get_fallback_response (req_message request)))
   \<and> (\<exists>a b. get_fallback_response (req_message request) = a @ req_message request @ b)
   \<and> (\<not> resp_success (fst (chat L w rag llm mem request))) =
       (\<exists>e. chat_context L rag request = Inl e)"
proof -
  have sub: "\<exists>a b. get_fallback_response (req_message request) = a @ req_message request @ b"
    unfolding get_fallback_response_def
    by (metis append.assoc)
  have to: "(\<forall>r. post w r = Timeout) \<Longrightarrow> \<not> llm_success (chat_llm_result w llm mem request c)" for c
    by (simp add: chat_llm_result_def generate_response_def ask_llm_def llm_failure_def Let_def
        split: option.splits)
  show ?thesis
  proof (cases "chat_context L rag request")
    case (Inl e)
    then show ?thesis using sub by (simp add: chat_def Let_def)
  next
    case (Inr p)
    obtain c d where p: "p = (c, d)" by (cases p)
    show ?thesis using sub to[of c] Inr p
      by (simp add: chat_def Let_def bot_response_of_def)
  qed
qed

lemma malformed_context:
  "chat_context unit_lib malformed_engine reset_request = Inl (KeyError ''type'')"
  by (simp add: chat_context_def reset_request_def get_relevant_context_def retrieve_context_def
      malformed_engine_def rag_init_def unit_lib_def similarities_of_def top_indices_of_def
      insertion_argsort_def py_slice_from_def format_context_def format_source_def Let_def)

lemma no_context_request:
  "chat_context L rag (reset_request\<lparr>req_include_context := False\<rparr>) = Inr ([], [])"
  by (simp add: chat_context_def reset_request_def)

theorem chat_fallback_witness:
  "chat unit_lib timeout_world malformed_engine (groq_engine ''k'') conversation_memory reset_request =
     (\<lparr>resp_success = False, resp_response = ''Internal error.'',
       resp_session_id = ''6f1c2a9e-0000-4000-8000-000000000001'',
       resp_processing_time = 1, resp_context_used = 0,
       resp_error = Some [CHR 0x27, CHR ''t'', CHR ''y'', CHR ''p'', CHR ''e'', CHR 0x27]\<rparr>,
      conversation_memory)
   \<and> resp_success (fst (chat unit_lib timeout_world (rag_init ''all-MiniLM-L6-v2'') (groq_engine ''k'')
         conversation_memory (reset_request\<lparr>req_include_context := False\<rparr>)))
   \<and> resp_response (fst (chat unit_lib timeout_world (rag_init ''all-MiniLM-L6-v2'') (groq_engine ''k'')
         conversation_memory (reset_request\<lparr>req_include_context := False\<rparr>))) =
       get_fallback_response ''How do I reset my password?''"
  using chat_fallback [where L = unit_lib and rag = malformed_engine and request = reset_request
      and w = timeout_world and llm = "groq_engine ''k''" and mem = conversation_memory]
    chat_fallback [where L = unit_lib and rag = "rag_init ''all-MiniLM-L6-v2''"
      and request = "reset_request\<lparr>req_include_context := False\<rparr>" and w = timeout_world
      and llm = "groq_engine ''k''" and mem = conversation_memory]
  by (simp add: malformed_context no_context_request)
     (simp add: timeout_world_def reset_request_def unit_lib_def session_of_def exn_str_def)

lemma add_message_log:
  "analytics_log (add_message st sid r c md n1 n2) =
     analytics_log st @
       [\<lparr>log_session_id = sid, log_role = r, log_content = c, log_timestamp = n2,
         log_context_used = 0, log_processing_time = None, log_metadata = or_empty md\<rparr>]"
  by (simp add: add_message_def log_message_def Let_def)

lemma add_message_conversations:
  "conversations (add_message st sid r c md n1 n2) =
     (conversations st)(sid \<mapsto> deque_append (history_deque st sid)
        \<lparr>msg_role = r, msg_content = c, msg_timestamp = n1, msg_metadata = or_empty md\<rparr>)"
  by (simp add: add_message_def log_message_def history_deque_def Let_def)

lemma add_message_max: "max_messages (add_message st sid r c md n1 n2) = max_messages st"
  by (simp add: add_message_def log_message_def Let_def)

lemma chat_memory_update_log:
  "analytics_log (chat_memory_update L w mem sid q reply n) =
     analytics_log mem @
       [\<lparr>log_session_id = sid, log_role = ''user'', log_content = q, log_timestamp = now w 1,
         log_context_used = 0, log_processing_time = None, log_metadata = []\<rparr>,
        \<lparr>log_session_id = sid, log_role = ''assistant'', log_content = reply, log_timestamp = now w 3,
         log_context_used = 0, log_processing_time = None, log_metadata = []\<rparr>,
        \<lparr>log_session_id = sid, log_role = ''user'', log_content = q, log_timestamp = now w 4,
         log_context_used = n, log_processing_time = None, log_metadata = []\<rparr>,
        \<lparr>log_session_id = sid, log_role = ''assistant'', log_content = reply, log_timestamp = now w 5,
         log_context_used = n, log_processing_time = Some (round3 L (clock w 1 - clock w 0)),
         log_metadata = []\<rparr>]"
  by (simp add: chat_memory_update_def add_message_log log_message_def or_empty_def Let_def)

lemma chat_memory_update_conversations:
  "conversations (chat_memory_update L w mem sid q reply n) =
     (conversations mem)(sid \<mapsto>
        deque_append
          (deque_append (history_deque mem sid)
             \<lparr>msg_role = ''user'', msg_content = q, msg_timestamp = now w 0, msg_metadata = []\<rparr>)
          \<lparr>msg_role = ''assistant'', msg_content = reply, msg_timestamp = now w 2, msg_metadata = []\<rparr>)"
  by (simp add: chat_memory_update_def add_message_conversations log_message_def or_empty_def
      history_deque_def Let_def)

lemma chat_snd:
  "snd (chat L w rag llm mem request) =
     (case chat_context L rag request of
        Inl e \<Rightarrow> mem
      | Inr (c, docs) \<Rightarrow>
          chat_memory_update L w mem (session_of w request) (req_message request)
            (bot_response_of request (chat_llm_result w llm mem request c)) (length docs))"
  by (simp add: chat_def Let_def split: sum.splits prod.splits)

lemma chat_log_length:
  "length (analytics_log (snd (chat L w rag llm mem request))) =
     length (analytics_log mem) + (if chat_ok L rag request then 4 else 0)"
  by (simp add: chat_snd chat_ok_def chat_memory_update_log split: sum.splits prod.splits)

lemma chat_run_log_length:
  "length (analytics_log (chat_run L rag llm mem calls)) =
     length (analytics_log mem) + 2 * history_additions L rag calls"
proof (induction calls rule: rev_induct)
  case Nil
  show ?case by (simp add: chat_run_def history_additions_def)
next
  case (snoc x xs)
  obtain w request where x: "x = (w, request)" by (cases x)
  have "chat_run L rag llm mem (xs @ [x]) = snd (chat L w rag llm (chat_run L rag llm mem xs) request)"
    by (simp add: chat_run_def x)
  then show ?case using snoc
    by (simp add: chat_log_length history_additions_def x)
qed

lemma chat_fst_response:
  "chat_context L rag request = Inr (c, docs) \<Longrightarrow>
     resp_response (fst (chat L w rag llm mem request)) =
       bot_response_of request (chat_llm_result w llm mem request c)
     \<and> resp_context_used (fst (chat L w rag llm mem request)) = length docs"
  by (simp add: chat_def Let_def)

lemma chat_summary_roles:
  "analytics_user_messages (get_analytics_summary (snd (chat L w rag llm mem request))) =
     analytics_user_messages (get_analytics_summary mem) + (if chat_ok L rag request then 2 else 0)
   \<and> analytics_assistant_messages (get_analytics_summary (snd (chat L w rag llm mem request))) =
     analytics_assistant_messages (get_analytics_summary mem) + (if chat_ok L rag request then 2 else 0)"
  by (simp add: chat_snd chat_ok_def chat_memory_update_log get_analytics_summary_def
      split: sum.splits prod.splits)

text \<open>
  C10. A request that raises nothing appends the user message and the reply to the history
  of its session, and four records to the analytics log: the two that \<^verbatim>\<open>add_message\<close>
  writes, with \<open>context_used = 0\<close> and no processing time, then the two that \<^verbatim>\<open>chat\<close>
  writes, with the number of retrieved documents and, on the reply's record, the measured
  processing time. A request that raises leaves the memory as it was. The summary counts
  two more user and two more assistant records per such request, and over any run of
  requests the log grows by twice the number of messages the run adds to histories.
\<close>

theorem chat_appends_four_records:
  "(case chat_context L rag request of
      Inl e \<Rightarrow> snd (chat L w rag llm mem request) = mem
    | Inr (context_str, docs) \<Rightarrow>
        analytics_log (snd (chat L w rag llm mem request)) =
          analytics_log mem @
            [\<lparr>log_session_id = session_of w request, log_role = ''user'',
              log_content = req_message request, log_timestamp = now w 1,
              log_context_used = 0, log_processing_time = None, log_metadata = []\<rparr>,
             \<lparr>log_session_id = session_of w request, log_role = ''assistant'',
              log_content = resp_response (fst (chat L w rag llm mem request)),
              log_timestamp = now w 3,
              log_context_used = 0, log_processing_time = None, log_metadata = []\<rparr>,
             \<lparr>log_session_id = session_of w request, log_role = ''user'',
              log_content = req_message request, log_timestamp = now w 4,
              log_context_used = length docs, log_processing_time = None, log_metadata = []\<rparr>,
             \<lparr>log_session_id = session_of w request, log_role = ''assistant'',
              log_content = resp_response (fst (chat L w rag llm mem request)),
              log_timestamp = now w 5,
              log_context_used = length docs,
              log_processing_time = Some (round3 L (clock w 1 - clock w 0)),
              log_metadata = []\<rparr>]
        \<and> conversations (snd (chat L w rag llm mem request)) =
            (conversations mem)(session_of w request \<mapsto>
               deque_append
                 (deque_append (history_deque mem (session_of w request))
                    \<lparr>msg_role = ''user'', msg_content = req_message request,
                      msg_timestamp = now w 0, msg_metadata = []\<rparr>)
                 \<lparr>msg_role = ''assistant'',
                   msg_content = resp_response (fst (chat L w rag llm mem request)),
                   msg_timestamp = now w 2, msg_metadata = []\<rparr>)
        \<and> resp_context_used (fst (chat L w rag llm mem request)) = length docs)
   \<and> analytics_user_messages (get_analytics_summary (snd (chat L w rag llm mem request))) =
       analytics_user_messages (get_analytics_summary mem) + (if chat_ok L rag request then 2 else 0)
   \<and> analytics_assistant_messages (get_analytics_summary (snd (chat L w rag llm mem request))) =
       analytics_assistant_messages (get_analytics_summary mem) +
         (if chat_ok L rag request then 2 else 0)
   \<and> length (analytics_log (chat_run L rag llm mem calls)) =
       length (analytics_log mem) + 2 * history_additions L rag calls
   \<and> analytics_total_messages (get_analytics_summary (chat_run L rag llm (memory_init n) calls)) =
       2 * history_additions L rag calls"
proof -
  have run: "length (analytics_log (chat_run L rag llm m calls)) =
       length (analytics_log m) + 2 * history_additions L rag calls" for m
    by (rule chat_run_log_length)
  have total: "analytics_total_messages (get_analytics_summary (chat_run L rag llm (memory_init n) calls)) =
       2 * history_additions L rag calls"
    by (simp add: get_analytics_summary_def run) (simp add: memory_init_def)
  have first: "(case chat_context L rag request of
      Inl e \<Rightarrow> snd (chat L w rag llm mem request) = mem
    | Inr (context_str, docs) \<Rightarrow>
        analytics_log (snd (chat L w rag llm mem request)) =
          analytics_log mem @
            [\<lparr>log_session_id = session_of w request, log_role = ''user'',
              log_content = req_message request, log_timestamp = now w 1,
              log_context_used = 0, log_processing_time = None, log_metadata = []\<rparr>,
             \<lparr>log_session_id = session_of w request, log_role = ''assistant'',
              log_content = resp_response (fst (chat L w rag llm mem request)),
              log_timestamp = now w 3,
              log_context_used = 0, log_processing_time = None, log_metadata = []\<rparr>,
             \<lparr>log_session_id = session_of w request, log_role = ''user'',
              log_content = req_message request, log_timestamp = now w 4,
              log_context_used = length docs, log_processing_time = None, log_metadata = []\<rparr>,
             \<lparr>log_session_id = session_of w request, log_role = ''assistant'',
              log_content = resp_response (fst (chat L w rag llm mem request)),
              log_timestamp = now w 5,
              log_context_used = length docs,
              log_processing_time = Some (round3 L (clock w 1 - clock w 0)),
              log_metadata = []\<rparr>]
        \<and> conversations (snd (chat L w rag llm mem request)) =
            (conversations mem)(session_of w request \<mapsto>
               deque_append
                 (deque_append (history_deque mem (session_of w request))
                    \<lparr>msg_role = ''user'', msg_content = req_message request,
                      msg_timestamp = now w 0, msg_metadata = []\<rparr>)
                 \<lparr>msg_role = ''assistant'',
                   msg_content = resp_response (fst (chat L w rag llm mem request)),
                   msg_timestamp = now w 2, msg_metadata = []\<rparr>)
        \<and> resp_context_used (fst (chat L w rag llm mem request)) = length docs)"
  proof (cases "chat_context L rag request")
    case (Inl e)
    then show ?thesis by (simp add: chat_snd)
  next
    case (Inr p)
    obtain c d where p: "p = (c, d)" by (cases p)
    show ?thesis
      using chat_fst_response[of L rag request c d w llm mem] Inr p
      by (simp add: chat_snd chat_memory_update_log chat_memory_update_conversations)
  qed
  show ?thesis using first chat_summary_roles[of L w rag llm mem request] run[of mem] total
    by blast
qed

theorem chat_appends_four_records_witness:
  "map log_context_used (analytics_log (snd (chat unit_lib timeout_world (rag_init ''all-MiniLM-L6-v2'')
       (groq_engine ''k'') conversation_memory (reset_request\<lparr>req_include_context := False\<rparr>)))) =
     [0, 0, 0, 0]
   \<and> map log_processing_time (analytics_log (snd (chat unit_lib timeout_world
       (rag_init ''all-MiniLM-L6-v2'') (groq_engine ''k'') conversation_memory
       (reset_request\<lparr>req_include_context := False\<rparr>)))) = [None, None, None, Some 1]
   \<and> map msg_role (get_conversation_history (snd (chat unit_lib timeout_world
       (rag_init ''all-MiniLM-L6-v2'') (groq_engine ''k'') conversation_memory
       (reset_request\<lparr>req_include_context := False\<rparr>))) ''6f1c2a9e-0000-4000-8000-000000000001'') =
       [''user'', ''assistant'']"
  using chat_appends_four_records [where L = unit_lib and rag = "rag_init ''all-MiniLM-L6-v2''"
      and request = "reset_request\<lparr>req_include_context := False\<rparr>" and w = timeout_world
      and llm = "groq_engine ''k''" and mem = conversation_memory and calls = "[]" and n = 10]
  by (simp add: no_context_request get_conversation_history_def)
     (simp add: conversation_memory_def memory_init_def timeout_world_def unit_lib_def
       session_of_def reset_request_def history_deque_def deque_new_def deque_append_def Let_def)

end
